theory Spec2Isabelle
  imports Main "HOL-Library.Sublist" "HOL-Library.AList"
begin

section \<open>JavaScript values shared by both scripts\<close>

text \<open>
  A thrown \<^verbatim>\<open>Error\<close> is a value carrying its message. A settled promise is either
  resolved with a value or rejected with an error.
\<close>

datatype error = Error string

datatype 'a promise = Resolved 'a | Rejected error

fun message :: "error \<Rightarrow> string" where
  "message (Error m) = m"

text \<open>\<^verbatim>\<open>String.prototype.includes\<close>: some suffix of the string starts with the pattern.\<close>

fun includes_str :: "string \<Rightarrow> string \<Rightarrow> bool" where
  "includes_str [] pat = (pat = [])"
| "includes_str (c # cs) pat = (prefix pat (c # cs) \<or> includes_str cs pat)"

section \<open>src/utils/native-fallbacks.js\<close>

subsection \<open>The runtime the handler runs in\<close>

text \<open>
  The handler has two effects: it writes to the console (\<^verbatim>\<open>console.warn\<close>,
  \<^verbatim>\<open>console.error\<close>) and it allocates \<^verbatim>\<open>Map\<close> objects (\<^verbatim>\<open>new Map()\<close>). A Map is
  identified by the number it received at allocation; its entries are kept in insertion
  order, as a JavaScript Map keeps them.
\<close>

datatype stream = Warn | Err

record runtime =
  console :: "(stream \<times> string) list"
  maps :: "nat \<Rightarrow> (string \<times> string) list"
  next_map :: nat

definition console_warn :: "string \<Rightarrow> runtime \<Rightarrow> runtime" where
  "console_warn m s = s\<lparr>console := console s @ [(Warn, m)]\<rparr>"

definition console_error :: "string \<Rightarrow> runtime \<Rightarrow> runtime" where
  "console_error m s = s\<lparr>console := console s @ [(Err, m)]\<rparr>"

definition new_Map :: "runtime \<Rightarrow> nat \<times> runtime" where
  "new_Map s = (next_map s, s\<lparr>maps := (maps s)(next_map s := []), next_map := Suc (next_map s)\<rparr>)"

text \<open>
  What a resolver can return: the module the loader found (\<open>Native\<close>), or one of the
  object literals the handler builds. The secret-store object closes over the Map it
  allocated; the \<^verbatim>\<open>bcryptjs\<close> object is built from the six functions of the module that
  \<^verbatim>\<open>require('bcryptjs')\<close> returned.
\<close>

datatype 'm provider =
    Native 'm
  | Sqlite3Fallback
  | KeytarFallback nat
  | BcryptjsFallback "'m provider"
  | BcryptFallback

text \<open>
  \<^verbatim>\<open>require\<close> as the handler sees it: given a module name it returns a module or throws,
  and may change the runtime. The outer \<open>option\<close> is \<open>None\<close> for a load that does not
  return.
\<close>

type_synonym 'm loader = "string \<Rightarrow> runtime \<Rightarrow> ((error + 'm provider) \<times> runtime) option"

text \<open>
  Node's own \<^verbatim>\<open>Module.prototype.require\<close>, before any interception: which modules
  load, and which fail with which error, is a parameter \<open>avail\<close>.
\<close>

definition originalRequire :: "(string \<Rightarrow> error + 'm) \<Rightarrow> 'm loader" where
  "originalRequire avail ident s =
     Some (case avail ident of Inl e \<Rightarrow> Inl e | Inr m \<Rightarrow> Inr (Native m), s)"

subsection \<open>createSqlite3Fallback and MockDatabase\<close>

definition createSqlite3Fallback :: "'m loader \<Rightarrow> runtime \<Rightarrow> ((error + 'm provider) \<times> runtime) option" where
  "createSqlite3Fallback require s =
     (case require ''sqlite3'' s of
        None \<Rightarrow> None
      | Some (Inr m, s1) \<Rightarrow> Some (Inr m, s1)
      | Some (Inl e, s1) \<Rightarrow>
          Some (Inr Sqlite3Fallback,
                console_warn ''sqlite3 native module not available, using memory fallback'' s1))"

definition OPEN_READWRITE :: nat where
  "OPEN_READWRITE = 2"

definition OPEN_CREATE :: nat where
  "OPEN_CREATE = 4"

text \<open>
  A callback is caller code: it receives its arguments, may change the runtime, and
  either returns (\<open>None\<close>) or throws (\<open>Some e\<close>). A method that is handed no callback
  (\<^verbatim>\<open>if (callback)\<close> is false) returns without calling anything.
\<close>

type_synonym 'a callback = "'a \<Rightarrow> runtime \<Rightarrow> error option \<times> runtime"

record MockDatabase =
  filename :: string
  isMemory :: bool

definition MockDatabase_new ::
  "string \<Rightarrow> (error option) callback option \<Rightarrow> runtime \<Rightarrow> (error + MockDatabase) \<times> runtime" where
  "MockDatabase_new fname cb s =
     (let db = \<lparr>filename = fname, isMemory = (fname = '':memory:'')\<rparr> in
      case cb of
        None \<Rightarrow> (Inr db, s)
      | Some f \<Rightarrow> (case f None s of (None, s1) \<Rightarrow> (Inr db, s1) | (Some e, s1) \<Rightarrow> (Inl e, s1)))"

definition MockDatabase_serialize :: "MockDatabase \<Rightarrow> (runtime \<Rightarrow> error option \<times> runtime) option \<Rightarrow> runtime \<Rightarrow> error option \<times> runtime" where
  "MockDatabase_serialize db fn s = (case fn of None \<Rightarrow> (None, s) | Some f \<Rightarrow> f s)"

definition MockDatabase_run :: "MockDatabase \<Rightarrow> string \<Rightarrow> 'p \<Rightarrow> (error option) callback option \<Rightarrow> runtime \<Rightarrow> error option \<times> runtime" where
  "MockDatabase_run db sql params cb s =
     (let s1 = console_warn (''SQLite operation attempted in fallback mode: '' @ sql) s in
      case cb of None \<Rightarrow> (None, s1) | Some f \<Rightarrow> f None s1)"

definition MockDatabase_get :: "MockDatabase \<Rightarrow> string \<Rightarrow> 'p \<Rightarrow> (error option \<times> 'row option) callback option \<Rightarrow> runtime \<Rightarrow> error option \<times> runtime" where
  "MockDatabase_get db sql params cb s =
     (let s1 = console_warn (''SQLite query attempted in fallback mode: '' @ sql) s in
      case cb of None \<Rightarrow> (None, s1) | Some f \<Rightarrow> f (None, None) s1)"

definition MockDatabase_all :: "MockDatabase \<Rightarrow> string \<Rightarrow> 'p \<Rightarrow> (error option \<times> 'row list) callback option \<Rightarrow> runtime \<Rightarrow> error option \<times> runtime" where
  "MockDatabase_all db sql params cb s =
     (let s1 = console_warn (''SQLite query attempted in fallback mode: '' @ sql) s in
      case cb of None \<Rightarrow> (None, s1) | Some f \<Rightarrow> f (None, []) s1)"

definition MockDatabase_close :: "MockDatabase \<Rightarrow> (error option) callback option \<Rightarrow> runtime \<Rightarrow> error option \<times> runtime" where
  "MockDatabase_close db cb s = (case cb of None \<Rightarrow> (None, s) | Some f \<Rightarrow> f None s)"

subsection \<open>createKeytarFallback and the in-memory credential store\<close>

definition createKeytarFallback :: "'m loader \<Rightarrow> runtime \<Rightarrow> ((error + 'm provider) \<times> runtime) option" where
  "createKeytarFallback require s =
     (case require ''keytar'' s of
        None \<Rightarrow> None
      | Some (Inr m, s1) \<Rightarrow> Some (Inr m, s1)
      | Some (Inl e, s1) \<Rightarrow>
          (let s2 = console_warn ''keytar native module not available, using memory fallback'' s1;
               (memoryStore, s3) = new_Map s2
           in Some (Inr (KeytarFallback memoryStore), s3)))"

text \<open>
  The four methods of the object literal, each taking the Map \<open>memoryStore\<close> its closure
  holds. \<^verbatim>\<open>memoryStore.get(key) || null\<close> is \<^verbatim>\<open>null\<close> for a missing key and for an empty
  password alike.
\<close>

definition store_key :: "string \<Rightarrow> string \<Rightarrow> string" where
  "store_key service account = service @ '':'' @ account"

definition getPassword :: "nat \<Rightarrow> string \<Rightarrow> string \<Rightarrow> runtime \<Rightarrow> string option promise \<times> runtime" where
  "getPassword memoryStore service account s =
     (case map_of (maps s memoryStore) (store_key service account) of
        None \<Rightarrow> (Resolved None, s)
      | Some p \<Rightarrow> (Resolved (if p = [] then None else Some p), s))"

definition setPassword :: "nat \<Rightarrow> string \<Rightarrow> string \<Rightarrow> string \<Rightarrow> runtime \<Rightarrow> unit promise \<times> runtime" where
  "setPassword memoryStore service account password s =
     (Resolved (),
      s\<lparr>maps := (maps s)(memoryStore :=
           AList.update (store_key service account) password (maps s memoryStore))\<rparr>)"

definition deletePassword :: "nat \<Rightarrow> string \<Rightarrow> string \<Rightarrow> runtime \<Rightarrow> bool promise \<times> runtime" where
  "deletePassword memoryStore service account s =
     (Resolved (map_of (maps s memoryStore) (store_key service account) \<noteq> None),
      s\<lparr>maps := (maps s)(memoryStore :=
           AList.delete (store_key service account) (maps s memoryStore))\<rparr>)"

definition findCredentials :: "nat \<Rightarrow> string \<Rightarrow> runtime \<Rightarrow> (string \<times> string) list promise \<times> runtime" where
  "findCredentials memoryStore service s =
     (Resolved
        (map (\<lambda>(key, password). (drop (length service + 1) key, password))
           (filter (\<lambda>(key, password). prefix (service @ '':'') key) (maps s memoryStore))),
      s)"

subsection \<open>createBcryptFallback and the identity hasher\<close>

definition createBcryptFallback :: "'m loader \<Rightarrow> runtime \<Rightarrow> ((error + 'm provider) \<times> runtime) option" where
  "createBcryptFallback require s =
     (case require ''bcrypt'' s of
        None \<Rightarrow> None
      | Some (Inr m, s1) \<Rightarrow> Some (Inr m, s1)
      | Some (Inl e, s1) \<Rightarrow>
          (let s2 = console_warn ''bcrypt native module not available, using bcryptjs fallback'' s1 in
           case require ''bcryptjs'' s2 of
             None \<Rightarrow> None
           | Some (Inr bcryptjs, s3) \<Rightarrow> Some (Inr (BcryptjsFallback bcryptjs), s3)
           | Some (Inl bcryptjsError, s3) \<Rightarrow>
               Some (Inr BcryptFallback,
                     console_error ''Neither bcrypt nor bcryptjs are available'' s3)))"

text \<open>
  The six arrow functions of the last object literal (the one returned when neither
  library loads). The \<^verbatim>\<open>async\<close> ones return a resolved promise; \<^verbatim>\<open>===\<close> on two strings
  is equality.
\<close>

definition hash :: "string \<Rightarrow> 'r \<Rightarrow> string promise" where
  "hash data rounds = Resolved data"

definition hashSync :: "string \<Rightarrow> 'r \<Rightarrow> string" where
  "hashSync data rounds = data"

definition compare :: "string \<Rightarrow> string \<Rightarrow> bool promise" where
  "compare data h = Resolved (data = h)"

definition compareSync :: "string \<Rightarrow> string \<Rightarrow> bool" where
  "compareSync data h = (data = h)"

definition genSalt :: "'r \<Rightarrow> string promise" where
  "genSalt rounds = Resolved ''fallback-salt''"

definition genSaltSync :: "'r \<Rightarrow> string" where
  "genSaltSync rounds = ''fallback-salt''"

text \<open>\<^verbatim>\<open>await p\<close> followed by more code: the continuation runs on the resolved value.\<close>

fun await :: "'a promise \<Rightarrow> ('a \<Rightarrow> 'b promise) \<Rightarrow> 'b promise" where
  "await (Resolved x) k = k x"
| "await (Rejected e) k = Rejected e"

subsection \<open>createFallbacks\<close>

record 'm fallbacks =
  sqlite3 :: "'m provider"
  keytar :: "'m provider"
  bcrypt :: "'m provider"

definition createFallbacks :: "'m loader \<Rightarrow> runtime \<Rightarrow> ((error + 'm fallbacks) \<times> runtime) option" where
  "createFallbacks require s =
     (case createSqlite3Fallback require s of
        None \<Rightarrow> None
      | Some (Inl e, s1) \<Rightarrow> Some (Inl e, s1)
      | Some (Inr a, s1) \<Rightarrow>
          (case createKeytarFallback require s1 of
             None \<Rightarrow> None
           | Some (Inl e, s2) \<Rightarrow> Some (Inl e, s2)
           | Some (Inr b, s2) \<Rightarrow>
               (case createBcryptFallback require s2 of
                  None \<Rightarrow> None
                | Some (Inl e, s3) \<Rightarrow> Some (Inl e, s3)
                | Some (Inr c, s3) \<Rightarrow> Some (Inr \<lparr>sqlite3 = a, keytar = b, bcrypt = c\<rparr>, s3))))"

subsection \<open>setupGlobalFallbacks\<close>

text \<open>
  The function that replaces \<^verbatim>\<open>Module.prototype.require\<close>. Every \<^verbatim>\<open>require(...)\<close> of
  every module goes through \<^verbatim>\<open>Module.prototype.require\<close>, the three inside this file
  too: once the replacement is installed, the \<^verbatim>\<open>require\<close> that the three resolvers call
  is the replacement itself. So a load of one of the three names that fails calls its
  resolver, which loads the name again, and so on while the load keeps failing. The
  nesting ends when the call stack is used up: the call that no longer fits throws a
  RangeError, which the \<^verbatim>\<open>catch (error)\<close> of the resolver that made the call catches like
  any other error. \<open>depth\<close> is the number of nested loads the stack still has room for.
\<close>

definition RangeError :: error where
  "RangeError = Error ''Maximum call stack size exceeded''"

primrec setupGlobalFallbacks :: "'m loader \<Rightarrow> nat \<Rightarrow> 'm loader" where
  "setupGlobalFallbacks original 0 = (\<lambda>ident s. Some (Inl RangeError, s))"
| "setupGlobalFallbacks original (Suc depth) = (\<lambda>ident s.
     case original ident s of
       None \<Rightarrow> None
     | Some (Inr m, s1) \<Rightarrow> Some (Inr m, s1)
     | Some (Inl e, s1) \<Rightarrow>
         if ident = ''sqlite3'' then createSqlite3Fallback (setupGlobalFallbacks original depth) s1
         else if ident = ''keytar'' then createKeytarFallback (setupGlobalFallbacks original depth) s1
         else if ident = ''bcrypt'' then createBcryptFallback (setupGlobalFallbacks original depth) s1
         else Some (Inl e, s1))"

section \<open>scripts/build-executable.js\<close>

subsection \<open>Paths\<close>

text \<open>
  A path is the list of its components below the root. \<^verbatim>\<open>path.join(p, s)\<close> splits \<open>s\<close> at
  the separators, drops empty and \<^verbatim>\<open>.\<close> segments and lets \<^verbatim>\<open>..\<close> step to the parent.
\<close>

type_synonym path = "string list"

fun split_sep :: "string \<Rightarrow> string list" where
  "split_sep [] = [[]]"
| "split_sep (c # cs) =
     (if c = CHR ''/'' then [] # split_sep cs
      else (case split_sep cs of [] \<Rightarrow> [[c]] | s # ss \<Rightarrow> (c # s) # ss))"

fun walk :: "path \<Rightarrow> string list \<Rightarrow> path" where
  "walk p [] = p"
| "walk p (seg # segs) =
     walk (if seg = [] \<or> seg = ''.'' then p else if seg = ''..'' then butlast p else p @ [seg]) segs"

definition path_join :: "path \<Rightarrow> string \<Rightarrow> path" where
  "path_join p s = walk p (split_sep s)"

definition path_str :: "path \<Rightarrow> string" where
  "path_str p = concat (map (\<lambda>c. ''/'' @ c) p)"

subsection \<open>Files, as fs-extra sees them\<close>

datatype json =
    JNull
  | JBool bool
  | JNum int
  | JStr string
  | JArr "json list"
  | JObj "(string \<times> json) list"

text \<open>
  A file holds text, or the serialisation of a JSON value (\<^verbatim>\<open>readJson\<close> of other text
  throws). The flag of a file is its executable bit.
\<close>

datatype content = Text string | Json json

datatype node = Dir | File content bool

type_synonym filesystem = "path \<Rightarrow> node option"

definition pathExists :: "filesystem \<Rightarrow> path \<Rightarrow> bool" where
  "pathExists fs p = (fs p \<noteq> None)"

definition existsSync :: "filesystem \<Rightarrow> path \<Rightarrow> bool" where
  "existsSync fs p = (fs p \<noteq> None)"

fun is_file :: "node option \<Rightarrow> bool" where
  "is_file (Some (File c x)) = True"
| "is_file n = False"

fun content_of :: "node option \<Rightarrow> content option" where
  "content_of (Some (File c x)) = Some c"
| "content_of n = None"

text \<open>\<^verbatim>\<open>fs.remove\<close>: the path and everything below it is gone; a missing path is not an error.\<close>

definition remove :: "path \<Rightarrow> filesystem \<Rightarrow> filesystem" where
  "remove p fs = (\<lambda>q. if prefix p q then None else fs q)"

text \<open>\<^verbatim>\<open>fs.ensureDir\<close>: \<^verbatim>\<open>mkdir -p\<close>; it throws when a component of the path is a file.\<close>

definition ensureDir :: "path \<Rightarrow> filesystem \<Rightarrow> error + filesystem" where
  "ensureDir p fs =
     (if list_ex (\<lambda>q. is_file (fs q)) (prefixes p) then Inl (Error ''ENOTDIR: not a directory'')
      else Inr (\<lambda>q. case fs q of Some n \<Rightarrow> Some n | None \<Rightarrow> if prefix q p then Some Dir else None))"

text \<open>\<^verbatim>\<open>fs.writeFile\<close>: the parent must be a directory and the path must not be one.\<close>

definition writeFile :: "path \<Rightarrow> content \<Rightarrow> filesystem \<Rightarrow> error + filesystem" where
  "writeFile p c fs =
     (case fs p of
        Some Dir \<Rightarrow> Inl (Error ''EISDIR: illegal operation on a directory'')
      | Some (File old x) \<Rightarrow> Inr (fs(p \<mapsto> File c x))
      | None \<Rightarrow>
          if p \<noteq> [] \<and> fs (butlast p) = Some Dir then Inr (fs(p \<mapsto> File c False))
          else Inl (Error ''ENOENT: no such file or directory''))"

text \<open>\<^verbatim>\<open>fs.chmod(p, '755')\<close>.\<close>

definition chmod755 :: "path \<Rightarrow> filesystem \<Rightarrow> error + filesystem" where
  "chmod755 p fs =
     (case fs p of
        None \<Rightarrow> Inl (Error ''ENOENT: no such file or directory'')
      | Some Dir \<Rightarrow> Inr fs
      | Some (File c x) \<Rightarrow> Inr (fs(p \<mapsto> File c True)))"

text \<open>
  \<^verbatim>\<open>fs.copy\<close>: a file is copied over a file or to a new path (the parent is created), a
  directory is merged into the destination, entry by entry. A missing source, a
  directory onto a file, a file onto a directory, and a destination inside the source
  throw.
\<close>

definition copy :: "path \<Rightarrow> path \<Rightarrow> filesystem \<Rightarrow> error + filesystem" where
  "copy src dst fs =
     (case fs src of
        None \<Rightarrow> Inl (Error ''ENOENT: no such file or directory'')
      | Some (File c x) \<Rightarrow>
          if fs dst = Some Dir then Inl (Error ''Cannot overwrite directory with non-directory'')
          else if src = dst then Inl (Error ''Source and destination must not be the same.'')
          else (case ensureDir (butlast dst) fs of
                  Inl e \<Rightarrow> Inl e
                | Inr fs1 \<Rightarrow> Inr (fs1(dst \<mapsto> File c x)))
      | Some Dir \<Rightarrow>
          if is_file (fs dst) then Inl (Error ''Cannot overwrite non-directory with directory'')
          else if prefix src dst then Inl (Error ''Cannot copy to a subdirectory of itself'')
          else (case ensureDir dst fs of
                  Inl e \<Rightarrow> Inl e
                | Inr fs1 \<Rightarrow>
                    Inr (\<lambda>q. case (if prefix dst q then fs (src @ drop (length dst) q) else None) of
                                Some n \<Rightarrow> Some n
                              | None \<Rightarrow> fs1 q)))"

text \<open>\<^verbatim>\<open>fs.move(src, dst, { overwrite: true })\<close>.\<close>

definition move :: "path \<Rightarrow> path \<Rightarrow> filesystem \<Rightarrow> error + filesystem" where
  "move src dst fs =
     (if fs src = None then Inl (Error ''ENOENT: no such file or directory'')
      else if prefix src dst then Inl (Error ''Cannot move to a subdirectory of itself'')
      else (case ensureDir (butlast dst) (remove dst fs) of
              Inl e \<Rightarrow> Inl e
            | Inr fs1 \<Rightarrow>
                Inr (\<lambda>q. if prefix dst q then fs (src @ drop (length dst) q)
                          else if prefix src q then None
                          else fs1 q)))"

definition readJson :: "path \<Rightarrow> filesystem \<Rightarrow> error + json" where
  "readJson p fs =
     (case fs p of
        None \<Rightarrow> Inl (Error ''ENOENT: no such file or directory'')
      | Some Dir \<Rightarrow> Inl (Error ''EISDIR: illegal operation on a directory'')
      | Some (File (Text s) x) \<Rightarrow> Inl (Error ''Unexpected token in JSON'')
      | Some (File (Json j) x) \<Rightarrow> Inr j)"

definition writeJson :: "path \<Rightarrow> json \<Rightarrow> filesystem \<Rightarrow> error + filesystem" where
  "writeJson p j fs = writeFile p (Json j) fs"

subsection \<open>Child processes\<close>

text \<open>
  What a child process does is a parameter of the build: given the command line, the
  working directory and the files, it closes with an exit code and its captured output
  or fails to start, after some milliseconds, and leaves the files changed. Every child
  process is taken to end; only \<open>testExecutable\<close> watches the clock.
\<close>

datatype outcome = Closed int string string | SpawnError error

type_synonym os = "string \<Rightarrow> path \<Rightarrow> filesystem \<Rightarrow> outcome \<times> nat \<times> filesystem"

fun digits :: "nat \<Rightarrow> string" where
  "digits n = (if n < 10 then [char_of (48 + n)] else digits (n div 10) @ [char_of (48 + n mod 10)])"

definition show_int :: "int \<Rightarrow> string" where
  "show_int i = (if i < 0 then ''-'' @ digits (nat (- i)) else digits (nat i))"

subsection \<open>The builder's state and its actions\<close>

datatype level = LInfo | LSuccess | LWarning | LError

text \<open>
  A line of standard output: one written by \<^verbatim>\<open>this.log(message, type)\<close> (its timestamp is
  left out), or one written by \<^verbatim>\<open>console.log\<close> directly.
\<close>

datatype line = Log level string | Plain string

record world =
  files :: filesystem
  stdout :: "line list"

text \<open>An action runs in a world and returns a value or throws; either way the world it leaves is kept.\<close>

type_synonym 'a action = "world \<Rightarrow> (error + 'a) \<times> world"

definition returnA :: "'a \<Rightarrow> 'a action" where
  "returnA x w = (Inr x, w)"

definition throwA :: "error \<Rightarrow> 'a action" where
  "throwA e w = (Inl e, w)"

definition bindA :: "'a action \<Rightarrow> ('a \<Rightarrow> 'b action) \<Rightarrow> 'b action" where
  "bindA m k w = (case m w of (Inl e, w1) \<Rightarrow> (Inl e, w1) | (Inr x, w1) \<Rightarrow> k x w1)"

definition catchA :: "'a action \<Rightarrow> (error \<Rightarrow> 'a action) \<Rightarrow> 'a action" where
  "catchA m h w = (case m w of (Inl e, w1) \<Rightarrow> h e w1 | (Inr x, w1) \<Rightarrow> (Inr x, w1))"

definition fs_do :: "(filesystem \<Rightarrow> error + filesystem) \<Rightarrow> unit action" where
  "fs_do f w = (case f (files w) of Inl e \<Rightarrow> (Inl e, w) | Inr fs1 \<Rightarrow> (Inr (), w\<lparr>files := fs1\<rparr>))"

definition fs_get :: "(filesystem \<Rightarrow> error + 'a) \<Rightarrow> 'a action" where
  "fs_get f w = (f (files w), w)"

definition log :: "string \<Rightarrow> level \<Rightarrow> unit action" where
  "log msg type w = (Inr (), w\<lparr>stdout := stdout w @ [Log type msg]\<rparr>)"

text \<open>
  A started asynchronous call: how it settles and after how many milliseconds.
  \<^verbatim>\<open>await\<close> waits for it however long it takes; \<^verbatim>\<open>Promise.race\<close> against a timer of \<open>ms\<close>
  milliseconds that rejects with \<^verbatim>\<open>Test timeout\<close> takes whichever settles first.
\<close>

type_synonym 'a pending = "world \<Rightarrow> ((error + 'a) \<times> nat) \<times> world"

definition awaitA :: "'a pending \<Rightarrow> 'a action" where
  "awaitA p w = (case p w of ((r, t), w1) \<Rightarrow> (r, w1))"

definition race_timeout :: "'a pending \<Rightarrow> nat \<Rightarrow> 'a action" where
  "race_timeout p ms w =
     (case p w of ((r, t), w1) \<Rightarrow> (if t < ms then r else Inl (Error ''Test timeout''), w1))"

subsection \<open>ExecutableBuilder\<close>

record options =
  target :: string
  outputName :: string
  verbose :: bool
  skipCleanup :: bool

record ExecutableBuilder =
  options :: options
  workDir :: path
  tempDir :: path

text \<open>
  The constructor's argument: each key is present or not. The spread \<^verbatim>\<open>...options\<close>
  comes last, so a key that is present wins over the default.
\<close>

record given_options =
  given_target :: "string option"
  given_output :: "string option"
  given_verbose :: "bool option"
  given_skipCleanup :: "bool option"

definition new_ExecutableBuilder :: "path \<Rightarrow> given_options \<Rightarrow> ExecutableBuilder" where
  "new_ExecutableBuilder dirname given =
     (let wd = path_join dirname ''..'' in
      \<lparr>options =
         \<lparr>target = (case given_target given of Some v \<Rightarrow> v | None \<Rightarrow> ''linux-x64''),
          outputName = (case given_output given of Some v \<Rightarrow> v | None \<Rightarrow> ''cross-exchange-daemon-linux''),
          verbose = (case given_verbose given of Some v \<Rightarrow> v | None \<Rightarrow> False),
          skipCleanup = (case given_skipCleanup given of Some v \<Rightarrow> v | None \<Rightarrow> False)\<rparr>,
       workDir = wd,
       tempDir = path_join wd ''temp-build''\<rparr>)"

definition cleanup :: "ExecutableBuilder \<Rightarrow> unit action" where
  "cleanup b w =
     (if \<not> skipCleanup (options b) \<and> existsSync (files w) (tempDir b)
      then log ''Cleaned up temporary build directory'' LInfo (w\<lparr>files := remove (tempDir b) (files w)\<rparr>)
      else (Inr (), w))"

definition filesToCopy :: "string list" where
  "filesToCopy = [''src'', ''package.json'', ''package-lock.json'', ''assets'', ''contracts'']"

primrec copyEach :: "path \<Rightarrow> path \<Rightarrow> (string \<Rightarrow> unit action) \<Rightarrow> string list \<Rightarrow> unit action" where
  "copyEach fromDir toDir after [] = returnA ()"
| "copyEach fromDir toDir after (file # rest) = (\<lambda>w.
     if pathExists (files w) (path_join fromDir file)
     then bindA (fs_do (copy (path_join fromDir file) (path_join toDir file))) (\<lambda>_.
          bindA (after file) (\<lambda>_.
          copyEach fromDir toDir after rest)) w
     else copyEach fromDir toDir after rest w)"

definition setupBuildEnvironment :: "ExecutableBuilder \<Rightarrow> unit action" where
  "setupBuildEnvironment b =
     bindA (log ''Setting up build environment...'' LInfo) (\<lambda>_.
     bindA (cleanup b) (\<lambda>_.
     bindA (fs_do (ensureDir (tempDir b))) (\<lambda>_.
     bindA (copyEach (workDir b) (tempDir b) (\<lambda>file. log (''Copied: '' @ file) LInfo) filesToCopy) (\<lambda>_.
     log ''Build environment setup completed'' LSuccess))))"

text \<open>\<^verbatim>\<open>execSync\<close>: blocks until the child closes; a non-zero exit and a failed start throw.\<close>

definition execSync :: "os \<Rightarrow> string \<Rightarrow> path \<Rightarrow> unit action" where
  "execSync os command cwd w =
     (case os command cwd (files w) of
        (Closed code out err, t, fs1) \<Rightarrow>
          (if code = 0 then Inr () else Inl (Error (''Command failed: '' @ command)), w\<lparr>files := fs1\<rparr>)
      | (SpawnError e, t, fs1) \<Rightarrow> (Inl e, w\<lparr>files := fs1\<rparr>))"

definition installDependencies :: "ExecutableBuilder \<Rightarrow> os \<Rightarrow> unit action" where
  "installDependencies b os =
     bindA (log ''Installing dependencies...'' LInfo) (\<lambda>_.
     catchA
       (bindA (execSync os ''npm ci'' (tempDir b)) (\<lambda>_.
        bindA (execSync os ''npm install --no-save @vercel/ncc pkg'' (tempDir b)) (\<lambda>_.
        log ''Dependencies installed successfully'' LSuccess)))
       (\<lambda>error. throwA (Error (''Failed to install dependencies: '' @ message error))))"

subsection \<open>preparePkgConfiguration\<close>

definition pkgConfig :: "string \<Rightarrow> json" where
  "pkgConfig tgt =
     JObj [(''scripts'', JStr ''src/index.js''),
           (''targets'', JArr [JStr tgt]),
           (''outputPath'', JStr ''dist''),
           (''options'', JArr [JStr ''--enable-source-maps'', JStr ''--no-bytecode'']),
           (''assets'', JArr [JStr ''assets/**/*'',
                             JStr ''contracts/**/*'',
                             JStr ''node_modules/sqlite3/lib/binding/**/*'',
                             JStr ''node_modules/keytar/build/**/*'',
                             JStr ''node_modules/bcrypt/lib/binding/**/*''])]"

definition problematicPackages :: "string list" where
  "problematicPackages =
     [''websocket'', ''web3'', ''web3-core'', ''web3-providers-ws'', ''web3-core-requestmanager'',
      ''@truffle/contract'', ''@truffle/hdwallet-provider'', ''@truffle/codec'',
      ''@truffle/decoder'', ''@truffle/abi-utils'', ''@truffle/compile-common'']"

fun truthy :: "json \<Rightarrow> bool" where
  "truthy JNull = False"
| "truthy (JBool v) = v"
| "truthy (JNum n) = (n \<noteq> 0)"
| "truthy (JStr s) = (s \<noteq> [])"
| "truthy (JArr xs) = True"
| "truthy (JObj kvs) = True"

text \<open>
  The assignments to the parsed manifest, and what \<^verbatim>\<open>writeJson\<close> then serialises. A class
  body is strict code: setting a property of \<^verbatim>\<open>null\<close> or of a primitive throws a
  TypeError. A named property set on an array is kept by the array and left out of its
  serialisation.
\<close>

definition patchManifest :: "string \<Rightarrow> json \<Rightarrow> error + json" where
  "patchManifest tgt packageJson =
     (case packageJson of
        JObj kvs \<Rightarrow>
          (let kvs1 = AList.update ''pkg'' (pkgConfig tgt) kvs;
               browser = (case map_of kvs1 ''browser'' of
                            None \<Rightarrow> None
                          | Some v \<Rightarrow> if truthy v then Some v else None)
           in case browser of
                None \<Rightarrow>
                  Inr (JObj (AList.update ''browser''
                        (JObj (fold (\<lambda>packageName. AList.update packageName (JBool False)) problematicPackages []))
                        kvs1))
              | Some (JObj bs) \<Rightarrow>
                  Inr (JObj (AList.update ''browser''
                        (JObj (fold (\<lambda>packageName. AList.update packageName (JBool False)) problematicPackages bs))
                        kvs1))
              | Some (JArr xs) \<Rightarrow> Inr (JObj kvs1)
              | Some v \<Rightarrow> Inl (Error ''TypeError: Cannot create property on a primitive''))
      | JArr xs \<Rightarrow> Inr (JArr xs)
      | JNull \<Rightarrow> Inl (Error ''TypeError: Cannot set properties of null'')
      | v \<Rightarrow> Inl (Error ''TypeError: Cannot create property on a primitive''))"

definition preparePkgConfiguration :: "ExecutableBuilder \<Rightarrow> unit action" where
  "preparePkgConfiguration b =
     bindA (log ''Preparing package.json for pkg...'' LInfo) (\<lambda>_.
     bindA (fs_get (readJson (path_join (tempDir b) ''package.json''))) (\<lambda>packageJson.
     bindA (\<lambda>w. (patchManifest (target (options b)) packageJson, w)) (\<lambda>patched.
     bindA (fs_do (writeJson (path_join (tempDir b) ''package.json'') patched)) (\<lambda>_.
     log ''Package.json configured for pkg'' LSuccess))))"

subsection \<open>createNativeModulePatches\<close>

definition sqlite3_patch :: string where
  \<open>sqlite3_patch =
     ''\<newline>try {\<newline>  module.exports = require('sqlite3');\<newline>} catch (e) {\<newline>'' @
     ''  console.warn('sqlite3 native module not available, using fallback');\<newline>'' @
     ''  module.exports = null;\<newline>}\<newline>''\<close>

definition keytar_patch :: string where
  \<open>keytar_patch =
     ''\<newline>try {\<newline>  module.exports = require('keytar');\<newline>} catch (e) {\<newline>'' @
     ''  console.warn('keytar native module not available, using fallback');\<newline>'' @
     ''  module.exports = {\<newline>    getPassword: () => Promise.resolve(null),\<newline>'' @
     ''    setPassword: () => Promise.resolve(),\<newline>    deletePassword: () => Promise.resolve()\<newline>'' @
     ''  };\<newline>}\<newline>''\<close>

definition bcrypt_patch :: string where
  \<open>bcrypt_patch =
     ''\<newline>try {\<newline>  module.exports = require('bcrypt');\<newline>} catch (e) {\<newline>'' @
     ''  console.warn('bcrypt native module not available, using bcryptjs fallback');\<newline>'' @
     ''  module.exports = require('bcryptjs');\<newline>}\<newline>''\<close>

definition createNativeModulePatches :: "ExecutableBuilder \<Rightarrow> unit action" where
  "createNativeModulePatches b =
     (let patchesDir = path_join (tempDir b) ''patches'' in
      bindA (log ''Creating native module patches...'' LInfo) (\<lambda>_.
      bindA (fs_do (ensureDir patchesDir)) (\<lambda>_.
      bindA (fs_do (writeFile (path_join patchesDir ''sqlite3.js'') (Text sqlite3_patch))) (\<lambda>_.
      bindA (fs_do (writeFile (path_join patchesDir ''keytar.js'') (Text keytar_patch))) (\<lambda>_.
      bindA (fs_do (writeFile (path_join patchesDir ''bcrypt.js'') (Text bcrypt_patch))) (\<lambda>_.
      log ''Native module patches created'' LSuccess))))))"

subsection \<open>executeCommand\<close>

text \<open>
  The promise \<^verbatim>\<open>executeCommand\<close> returns: the child is spawned in \<^verbatim>\<open>options.cwd\<close> or in the
  scratch directory; it resolves when the child closes with code 0 and rejects on any
  other code and on a failed start. Output is captured only when not verbose.
\<close>

definition executeCommand ::
  "ExecutableBuilder \<Rightarrow> os \<Rightarrow> string \<Rightarrow> path option \<Rightarrow> (string \<times> string \<times> int) pending" where
  "executeCommand b os command cwd w =
     (let w1 = (if verbose (options b) then snd (log (''Executing: '' @ command) LInfo w) else w) in
      case os command (case cwd of Some d \<Rightarrow> d | None \<Rightarrow> tempDir b) (files w1) of
        (Closed code out err, t, fs1) \<Rightarrow>
          (let stdout_text = (if verbose (options b) then [] else out);
               stderr_text = (if verbose (options b) then [] else err)
           in ((if code = 0 then Inr (stdout_text, stderr_text, code)
                else Inl (Error (''Command failed with code '' @ show_int code @ '': '' @
                                 (if stderr_text \<noteq> [] then stderr_text else stdout_text))),
                t),
               w1\<lparr>files := fs1\<rparr>))
      | (SpawnError e, t, fs1) \<Rightarrow> ((Inl e, t), w1\<lparr>files := fs1\<rparr>))"

subsection \<open>buildExecutable\<close>

definition nccCommand :: string where
  "nccCommand =
     ''npx ncc build src/index.js --out dist-bundle --minify --no-source-map-register '' @
     ''--external sqlite3 --external keytar --external bcrypt --external bcryptjs '' @
     ''--external websocket --external web3 --external web3-core '' @
     ''--external web3-providers-ws --external web3-core-requestmanager '' @
     ''--external @truffle/contract --external @truffle/hdwallet-provider '' @
     ''--external @truffle/codec --external @truffle/decoder '' @
     ''--external @truffle/abi-utils --external @truffle/compile-common''"

definition pkgCommand :: "ExecutableBuilder \<Rightarrow> string" where
  "pkgCommand b =
     ''npx pkg package.json --target '' @ target (options b) @ '' --output '' @ outputName (options b) @
     '' --options no-bytecode,no-warnings''"

definition check_mark :: string where
  "check_mark = [CHR 0xE2, CHR 0x9C, CHR 0x93]"

text \<open>The two launcher scripts, for the entry script \<open>entry\<close> they start.\<close>

definition batch_launcher :: "string \<Rightarrow> string" where
  \<open>batch_launcher entry =
     ''@echo off\<newline>cd /d "%~dp0'' @ [CHR 0x5C] @ ''temp-build'' @ [CHR 0x5C] @ ''dist"\<newline>node '' @
     entry @ '' %*\<newline>''\<close>

definition bash_launcher :: "string \<Rightarrow> string" where
  \<open>bash_launcher entry =
     ''#!/bin/bash\<newline>cd "$(dirname "$0")/temp-build/dist"\<newline>exec node '' @
     entry @ '' "$@"\<newline>''\<close>

definition launcher_script :: "ExecutableBuilder \<Rightarrow> string \<Rightarrow> string" where
  "launcher_script b entry =
     (if includes_str (target (options b)) ''win'' then batch_launcher entry else bash_launcher entry)"

definition launcherPath :: "ExecutableBuilder \<Rightarrow> path" where
  "launcherPath b = path_join (workDir b) (outputName (options b))"

text \<open>The launcher block, which methods 1 and 3 share but for the entry script.\<close>

definition writeLauncher :: "ExecutableBuilder \<Rightarrow> string \<Rightarrow> unit action" where
  "writeLauncher b entry =
     (if includes_str (target (options b)) ''win''
      then fs_do (writeFile (launcherPath b) (Text (batch_launcher entry)))
      else bindA (fs_do (writeFile (launcherPath b) (Text (bash_launcher entry)))) (\<lambda>_.
           fs_do (chmod755 (launcherPath b))))"

text \<open>Method 1, the body of the outer \<^verbatim>\<open>try\<close>.\<close>

definition method1 :: "ExecutableBuilder \<Rightarrow> os \<Rightarrow> string action" where
  "method1 b os =
     (let distDir = path_join (tempDir b) ''dist'' in
      bindA (log ''Attempting ncc bundling approach...'' LInfo) (\<lambda>_.
      bindA (awaitA (executeCommand b os nccCommand None)) (\<lambda>_.
      bindA (fs_do (ensureDir distDir)) (\<lambda>_.
      bindA (fs_do (copy (path_join (path_join (tempDir b) ''dist-bundle'') ''index.js'')
                         (path_join distDir ''index.js''))) (\<lambda>_.
      bindA (fs_do (copy (path_join (tempDir b) ''package.json'') (path_join distDir ''package.json''))) (\<lambda>_.
      bindA (copyEach (tempDir b) distDir (\<lambda>assetDir. returnA ()) [''assets'', ''contracts'']) (\<lambda>_.
      bindA (writeLauncher b ''index.js'') (\<lambda>_.
      bindA (log (check_mark @ '' Executable built successfully with ncc bundling'') LSuccess) (\<lambda>_.
      returnA ''ncc'')))))))))"

text \<open>Method 2, the body of the inner \<^verbatim>\<open>try\<close>.\<close>

definition method2 :: "ExecutableBuilder \<Rightarrow> os \<Rightarrow> string action" where
  "method2 b os =
     (let builtExecutable = path_join (tempDir b) (outputName (options b));
          finalExecutable = path_join (workDir b) (outputName (options b)) in
      bindA (log ''Attempting pkg approach...'' LInfo) (\<lambda>_.
      bindA (awaitA (executeCommand b os (pkgCommand b) None)) (\<lambda>_.
      bindA (\<lambda>w. if pathExists (files w) builtExecutable
                  then fs_do (move builtExecutable finalExecutable) w
                  else (Inr (), w)) (\<lambda>_.
      bindA (log (check_mark @ '' Executable built successfully with pkg'') LSuccess) (\<lambda>_.
      returnA ''pkg'')))))"

text \<open>Method 3, the rest of the inner \<^verbatim>\<open>catch\<close>.\<close>

definition method3 :: "ExecutableBuilder \<Rightarrow> string action" where
  "method3 b =
     (let distDir = path_join (tempDir b) ''dist'' in
      bindA (log ''Creating basic Node.js package...'' LInfo) (\<lambda>_.
      bindA (fs_do (ensureDir distDir)) (\<lambda>_.
      bindA (fs_do (copy (path_join (tempDir b) ''src'') (path_join distDir ''src''))) (\<lambda>_.
      bindA (fs_do (copy (path_join (tempDir b) ''package.json'') (path_join distDir ''package.json''))) (\<lambda>_.
      bindA (writeLauncher b ''src/index.js'') (\<lambda>_.
      bindA (log (check_mark @ '' Basic Node.js package created'') LSuccess) (\<lambda>_.
      returnA ''basic'')))))))"

definition buildExecutable :: "ExecutableBuilder \<Rightarrow> os \<Rightarrow> string action" where
  "buildExecutable b os =
     bindA (log (''Building executable for '' @ target (options b) @ ''...'') LInfo) (\<lambda>_.
     catchA (method1 b os) (\<lambda>nccError.
       bindA (log (''ncc bundling failed: '' @ message nccError) LWarning) (\<lambda>_.
       catchA (method2 b os) (\<lambda>pkgError.
         bindA (log (''pkg failed: '' @ message pkgError) LWarning) (\<lambda>_.
         method3 b)))))"

subsection \<open>testExecutable\<close>

definition testCommand :: "ExecutableBuilder \<Rightarrow> string" where
  "testCommand b = path_str (path_join (workDir b) (outputName (options b))) @ '' --help''"

definition testExecutable :: "ExecutableBuilder \<Rightarrow> os \<Rightarrow> bool action" where
  "testExecutable b os =
     bindA (log ''Testing built executable...'' LInfo) (\<lambda>_. \<lambda>w.
       if \<not> pathExists (files w) (path_join (workDir b) (outputName (options b)))
       then throwA (Error ''Executable not found'') w
       else catchA
              (bindA (race_timeout (executeCommand b os (testCommand b) (Some (workDir b))) 10000) (\<lambda>result.
               bindA (log (check_mark @ '' Executable test passed'') LSuccess) (\<lambda>_.
               returnA True)))
              (\<lambda>error.
               bindA (log (''Executable test failed: '' @ message error) LWarning) (\<lambda>_.
               returnA False)) w)"

subsection \<open>run\<close>

definition package_emoji :: string where
  "package_emoji = [CHR 0xF0, CHR 0x9F, CHR 0x93, CHR 0xA6]"

definition party_emoji :: string where
  "party_emoji = [CHR 0xF0, CHR 0x9F, CHR 0x8E, CHR 0x89]"

text \<open>The \<^verbatim>\<open>try\<close> block of \<open>run\<close> up to the call of \<open>buildExecutable\<close>, which it returns.\<close>

definition run_build :: "ExecutableBuilder \<Rightarrow> os \<Rightarrow> string action" where
  "run_build b os =
     bindA (log (''Starting build process for '' @ target (options b)) LInfo) (\<lambda>_.
     bindA (setupBuildEnvironment b) (\<lambda>_.
     bindA (installDependencies b os) (\<lambda>_.
     bindA (preparePkgConfiguration b) (\<lambda>_.
     bindA (createNativeModulePatches b) (\<lambda>_.
     buildExecutable b os)))))"

text \<open>The whole \<^verbatim>\<open>try\<close> block.\<close>

definition run_try :: "ExecutableBuilder \<Rightarrow> os \<Rightarrow> unit action" where
  "run_try b os =
     bindA (run_build b os) (\<lambda>buildMethod.
     bindA (testExecutable b os) (\<lambda>testResult.
     bindA (log (package_emoji @ '' Build Summary:'') LInfo) (\<lambda>_.
     bindA (log (''  Target: '' @ target (options b)) LInfo) (\<lambda>_.
     bindA (log (''  Output: '' @ outputName (options b)) LInfo) (\<lambda>_.
     bindA (log (''  Method: '' @ buildMethod) LInfo) (\<lambda>_.
     bindA (log (''  Test: '' @ (if testResult then ''PASSED'' else ''FAILED''))
                (if testResult then LSuccess else LWarning)) (\<lambda>_.
     bindA (if \<not> skipCleanup (options b) then cleanup b else returnA ()) (\<lambda>_.
     log (party_emoji @ '' Build completed successfully!'') LSuccess))))))))"

text \<open>
  How \<open>run\<close> ends: it returns (the process then ends with code 0 once nothing is left to
  do), or it calls \<^verbatim>\<open>process.exit\<close>.
\<close>

datatype completion = Returned | Exited nat

definition run :: "ExecutableBuilder \<Rightarrow> os \<Rightarrow> world \<Rightarrow> completion \<times> world" where
  "run b os w =
     (case run_try b os w of
        (Inr u, w1) \<Rightarrow> (Returned, w1)
      | (Inl error, w1) \<Rightarrow>
          (Exited 1,
           snd (bindA (log (''Build failed: '' @ message error) LError) (\<lambda>_.
                if \<not> skipCleanup (options b) then cleanup b else returnA ()) w1)))"

definition exit_code :: "completion \<Rightarrow> nat" where
  "exit_code c = (case c of Returned \<Rightarrow> 0 | Exited n \<Rightarrow> n)"

subsection \<open>The command line\<close>

text \<open>
  \<^verbatim>\<open>args[args.indexOf(flag) + 1]\<close> when the flag occurs and that element is truthy (present
  and not the empty string): only the first occurrence of the flag is looked at.
\<close>

fun arg_after :: "string \<Rightarrow> string list \<Rightarrow> string option" where
  "arg_after flag [] = None"
| "arg_after flag (a # as) =
     (if a = flag
      then (case as of [] \<Rightarrow> None | v # rest \<Rightarrow> if v = [] then None else Some v)
      else arg_after flag as)"

definition parseArgs :: "string list \<Rightarrow> given_options" where
  "parseArgs args =
     (let options0 =
            \<lparr>given_target = Some ''linux-x64'',
             given_output = Some ''cross-exchange-daemon-linux'',
             given_verbose = Some (''--verbose'' \<in> set args \<or> ''-v'' \<in> set args),
             given_skipCleanup = Some (''--skip-cleanup'' \<in> set args)\<rparr>;
          options1 =
            (case arg_after ''--target'' args of
               None \<Rightarrow> options0
             | Some t \<Rightarrow>
                 (if includes_str t ''win''
                  then options0\<lparr>given_target := Some t, given_output := Some ''cross-exchange-daemon-win.exe''\<rparr>
                  else if includes_str t ''macos''
                  then options0\<lparr>given_target := Some t, given_output := Some ''cross-exchange-daemon-macos''\<rparr>
                  else options0\<lparr>given_target := Some t\<rparr>))
      in case arg_after ''--output'' args of
           None \<Rightarrow> options1
         | Some v \<Rightarrow> options1\<lparr>given_output := Some v\<rparr>)"

definition usage :: string where
  "usage =
     ''\<newline>Cross Exchange Daemon - Local Executable Builder\<newline>\<newline>'' @
     ''Usage: node scripts/build-executable.js [options]\<newline>\<newline>Options:\<newline>'' @
     ''  --target TARGET      Target platform (default: linux-x64)\<newline>'' @
     ''                       Available: linux-x64, win-x64, macos-x64\<newline>'' @
     ''  --output OUTPUT      Output executable name\<newline>'' @
     ''  --verbose, -v        Show detailed output\<newline>'' @
     ''  --skip-cleanup       Keep temporary build files\<newline>'' @
     ''  --help, -h          Show this help message\<newline>\<newline>Examples:\<newline>'' @
     ''  # Build for Linux (default)\<newline>  node scripts/build-executable.js\<newline>\<newline>'' @
     ''  # Build for Windows with verbose output\<newline>'' @
     ''  node scripts/build-executable.js --target win-x64 --verbose\<newline>\<newline>'' @
     ''  # Build for macOS and keep temp files\<newline>'' @
     ''  node scripts/build-executable.js --target macos-x64 --skip-cleanup\<newline>''"

text \<open>The script run as the main module, from the directory \<open>dirname\<close>: the exit code of the process.\<close>

definition main :: "path \<Rightarrow> os \<Rightarrow> string list \<Rightarrow> world \<Rightarrow> nat \<times> world" where
  "main dirname os args w =
     (let given = parseArgs args in
      if ''--help'' \<in> set args \<or> ''-h'' \<in> set args
      then (0, w\<lparr>stdout := stdout w @ [Plain usage]\<rparr>)
      else (case run (new_ExecutableBuilder dirname given) os w of (c, w1) \<Rightarrow> (exit_code c, w1)))"

section \<open>Observations and concrete inputs\<close>

subsection \<open>Which strategies a build started\<close>

text \<open>
  \<open>buildExecutable\<close> writes one line when it starts each of its three methods. The
  strategies a build has attempted are read off its output, in order.
\<close>

datatype strategy = Bundle | Pack | Basic

fun attempt_of :: "line \<Rightarrow> strategy option" where
  "attempt_of (Log type msg) =
     (if msg = ''Attempting ncc bundling approach...'' then Some Bundle
      else if msg = ''Attempting pkg approach...'' then Some Pack
      else if msg = ''Creating basic Node.js package...'' then Some Basic
      else None)"
| "attempt_of (Plain msg) = None"

definition attempts :: "line list \<Rightarrow> strategy list" where
  "attempts ls = List.map_filter attempt_of ls"

text \<open>An action that starts no strategy, and an action that can only return \<open>v\<close>.\<close>

definition quiet :: "(world \<Rightarrow> 'r \<times> world) \<Rightarrow> bool" where
  "quiet m = (\<forall>w. attempts (stdout (snd (m w))) = attempts (stdout w))"

definition yields :: "'a action \<Rightarrow> 'a \<Rightarrow> bool" where
  "yields m v = (\<forall>w. case fst (m w) of Inr x \<Rightarrow> x = v | Inl e \<Rightarrow> True)"

text \<open>
  The states in which \<open>buildExecutable\<close> enters its three methods: the first after its
  opening line, the second after the warning that carries the bundler's error, the
  third after the warning that carries the packer's error.
\<close>

definition started :: "ExecutableBuilder \<Rightarrow> world \<Rightarrow> world" where
  "started b w = snd (log (''Building executable for '' @ target (options b) @ ''...'') LInfo w)"

definition after_ncc_failed :: "error \<Rightarrow> world \<Rightarrow> world" where
  "after_ncc_failed nccError w = snd (log (''ncc bundling failed: '' @ message nccError) LWarning w)"

definition after_pkg_failed :: "error \<Rightarrow> world \<Rightarrow> world" where
  "after_pkg_failed pkgError w = snd (log (''pkg failed: '' @ message pkgError) LWarning w)"

subsection \<open>A process in which no native module and no bcryptjs can be loaded\<close>

definition no_modules :: "string \<Rightarrow> error + unit" where
  "no_modules name = Inl (Error (''Cannot find module '' @ name))"

definition runtime0 :: runtime where
  "runtime0 = \<lparr>console = [], maps = (\<lambda>a. []), next_map = 0\<rparr>"

definition runtime1 :: runtime where
  "runtime1 = snd (the (createKeytarFallback (originalRequire no_modules) runtime0))"

definition runtime2 :: runtime where
  "runtime2 = snd (the (createKeytarFallback (originalRequire no_modules) runtime1))"

text \<open>Two more loaders: one that loads every module, and one whose loads do not return.\<close>

definition all_modules :: "string \<Rightarrow> error + unit" where
  "all_modules name = Inr ()"

definition never_returns :: "unit loader" where
  "never_returns ident s = None"

subsection \<open>A checkout of the project\<close>

definition scripts_dir :: path where
  "scripts_dir = [''home'', ''ci'', ''daemon'', ''scripts'']"

subsection \<open>Two environments that differ in the verification run only\<close>

text \<open>The child processes of two builds behave alike on every command but the verification command.\<close>

definition same_tools :: "ExecutableBuilder \<Rightarrow> os \<Rightarrow> os \<Rightarrow> bool" where
  "same_tools b os1 os2 = (\<forall>c d f. c \<noteq> testCommand b \<longrightarrow> os1 c d f = os2 c d f)"

subsection \<open>A build on a small checkout\<close>

text \<open>
  The builder as the command line without arguments makes it, a checkout that holds a
  manifest and one source file, tools that all succeed within 5 ms (the bundler writes
  \<^verbatim>\<open>dist-bundle/index.js\<close>), and two variants whose verification run fails: one never
  ends within the 10 seconds, one exits with code 1. \<open>built0\<close> is a checkout that holds
  a launcher.
\<close>

definition builder0 :: ExecutableBuilder where
  "builder0 = new_ExecutableBuilder scripts_dir (parseArgs [])"

definition checkout :: filesystem where
  "checkout =
     (\<lambda>p. None)
     ([] \<mapsto> Dir,
      [''home''] \<mapsto> Dir,
      [''home'', ''ci''] \<mapsto> Dir,
      [''home'', ''ci'', ''daemon''] \<mapsto> Dir,
      [''home'', ''ci'', ''daemon'', ''package.json'']
         \<mapsto> File (Json (JObj [(''name'', JStr ''cross-exchange-daemon'')])) False,
      [''home'', ''ci'', ''daemon'', ''src''] \<mapsto> Dir,
      [''home'', ''ci'', ''daemon'', ''src'', ''index.js''] \<mapsto> File (Text ''main();'') False)"

definition world0 :: world where
  "world0 = \<lparr>files = checkout, stdout = []\<rparr>"

definition tools_ok :: os where
  "tools_ok c d f =
     (Closed 0 [] [], 5,
      if c = nccCommand
      then f(d @ [''dist-bundle''] \<mapsto> Dir,
             d @ [''dist-bundle'', ''index.js''] \<mapsto> File (Text ''bundle();'') False)
      else f)"

definition test_hangs :: os where
  "test_hangs c d f = (if c = testCommand builder0 then (Closed 0 [] [], 60000, f) else tools_ok c d f)"

definition test_fails :: os where
  "test_fails c d f =
     (if c = testCommand builder0 then (Closed 1 [] ''Error: missing credentials'', 120, f)
      else tools_ok c d f)"

definition built0 :: world where
  "built0 = \<lparr>files = checkout([''home'', ''ci'', ''daemon'', ''cross-exchange-daemon-linux'']
                 \<mapsto> File (Text (bash_launcher ''index.js'')) True),
              stdout = []\<rparr>"

text \<open>
  \<open>staged0\<close> is the checkout once the scratch directory holds the manifest and the
  sources, which is where \<open>buildExecutable\<close> starts. Three more tool sets, all with a
  bundler that exits with code 1: a packer that writes the binary, a packer that exits
  with code 0 and writes nothing, and tools that all exit with code 1.
\<close>

definition staged0 :: world where
  "staged0 =
     \<lparr>files = checkout
        ([''home'', ''ci'', ''daemon'', ''temp-build''] \<mapsto> Dir,
         [''home'', ''ci'', ''daemon'', ''temp-build'', ''package.json'']
            \<mapsto> File (Json (JObj [(''name'', JStr ''cross-exchange-daemon'')])) False,
         [''home'', ''ci'', ''daemon'', ''temp-build'', ''src''] \<mapsto> Dir,
         [''home'', ''ci'', ''daemon'', ''temp-build'', ''src'', ''index.js'']
            \<mapsto> File (Text ''main();'') False),
      stdout = []\<rparr>"

definition pkg_builds :: os where
  "pkg_builds c d f =
     (if c = nccCommand then (Closed 1 [] ''ncc: build failed'', 5, f)
      else if c = pkgCommand builder0
      then (Closed 0 [] [], 5, f(d @ [''cross-exchange-daemon-linux''] \<mapsto> File (Text ''ELF'') True))
      else (Closed 0 [] [], 5, f))"

definition pkg_leaves_nothing :: os where
  "pkg_leaves_nothing c d f =
     (if c = nccCommand then (Closed 1 [] ''ncc: build failed'', 5, f) else (Closed 0 [] [], 5, f))"

definition tools_fail :: os where
  "tools_fail c d f = (Closed 1 [] ''failed'', 5, f)"

section \<open>The capability fallbacks\<close>

text \<open>
  C5. The last password-hasher fallback: the hash of a string is the string itself, so
  comparing a string with its own hash succeeds, asynchronously and synchronously, for
  any rounds argument; two strings have the same hash exactly when they are equal.
\<close>

theorem identity_hasher:
  "hash x r = Resolved x \<and> hashSync x r = x
   \<and> await (hash x r) (compare x) = Resolved True
   \<and> compareSync x (hashSync x r)
   \<and> (hashSync x r = hashSync y r' \<longleftrightarrow> x = y)"
  by (simp add: hash_def hashSync_def compare_def compareSync_def)

text \<open>
  C8. The structured-storage fallback: \<open>run\<close>, \<open>get\<close> and \<open>all\<close> write their warning
  and then call the callback they were given once, with a null error and an empty result
  (nothing for \<open>run\<close>, no row for \<open>get\<close>, the empty array for \<open>all\<close>), for every SQL
  string and every parameter value. They throw nothing of their own: without a callback
  they return, with one they end as the callback ends.
\<close>

theorem mock_database_reports_success:
  "MockDatabase_run db sql params None s
     = (None, console_warn (''SQLite operation attempted in fallback mode: '' @ sql) s)
   \<and> MockDatabase_run db sql params (Some cb) s
     = cb None (console_warn (''SQLite operation attempted in fallback mode: '' @ sql) s)
   \<and> MockDatabase_get db sql params None s
     = (None, console_warn (''SQLite query attempted in fallback mode: '' @ sql) s)
   \<and> MockDatabase_get db sql params (Some cb_row) s
     = cb_row (None, None) (console_warn (''SQLite query attempted in fallback mode: '' @ sql) s)
   \<and> MockDatabase_all db sql params None s
     = (None, console_warn (''SQLite query attempted in fallback mode: '' @ sql) s)
   \<and> MockDatabase_all db sql params (Some cb_rows) s
     = cb_rows (None, []) (console_warn (''SQLite query attempted in fallback mode: '' @ sql) s)"
  by (simp add: MockDatabase_run_def MockDatabase_get_def MockDatabase_all_def)

lemma createSqlite3Fallback_no_error: "createSqlite3Fallback require s \<noteq> Some (Inl e, t)"
  by (simp add: createSqlite3Fallback_def split: option.splits prod.splits sum.splits)

lemma createKeytarFallback_no_error: "createKeytarFallback require s \<noteq> Some (Inl e, t)"
  by (simp add: createKeytarFallback_def new_Map_def Let_def split: option.splits prod.splits sum.splits)

lemma createBcryptFallback_no_error: "createBcryptFallback require s \<noteq> Some (Inl e, t)"
  by (simp add: createBcryptFallback_def split: option.splits prod.splits sum.splits)

lemma createFallbacks_no_error: "createFallbacks require s \<noteq> Some (Inl e, t)"
  by (auto simp: createFallbacks_def createSqlite3Fallback_no_error createKeytarFallback_no_error
      createBcryptFallback_no_error split: option.splits prod.splits sum.splits)

text \<open>
  C3. Resolution never throws. Whatever \<^verbatim>\<open>require\<close> does, none of the three resolvers
  and not \<open>createFallbacks\<close> ends with an error. With Node's own \<^verbatim>\<open>require\<close>,
  whichever modules it can load, each of them returns a provider; when the native module
  does not load, that provider is the fallback (for the hasher the \<^verbatim>\<open>bcryptjs\<close> object,
  and the identity hasher when \<^verbatim>\<open>bcryptjs\<close> does not load either).
\<close>

theorem resolution_never_throws:
  fixes avail :: "string \<Rightarrow> error + 'm" and require :: "'m loader"
  shows
  "(\<exists>p s1. createSqlite3Fallback (originalRequire avail) s = Some (Inr p, s1)
      \<and> (isl (avail ''sqlite3'') \<longrightarrow> p = Sqlite3Fallback))
   \<and> (\<exists>p s1. createKeytarFallback (originalRequire avail) s = Some (Inr p, s1)
      \<and> (isl (avail ''keytar'') \<longrightarrow> p = KeytarFallback (next_map s)))
   \<and> (\<exists>p s1. createBcryptFallback (originalRequire avail) s = Some (Inr p, s1)
      \<and> (isl (avail ''bcrypt'') \<longrightarrow>
           p = (case avail ''bcryptjs'' of Inr m \<Rightarrow> BcryptjsFallback (Native m) | Inl e \<Rightarrow> BcryptFallback)))
   \<and> (\<exists>fb s1. createFallbacks (originalRequire avail) s = Some (Inr fb, s1))
   \<and> createSqlite3Fallback require s \<noteq> Some (Inl e, t)
   \<and> createKeytarFallback require s \<noteq> Some (Inl e, t)
   \<and> createBcryptFallback require s \<noteq> Some (Inl e, t)
   \<and> createFallbacks require s \<noteq> Some (Inl e, t)"
proof -
  have a: "\<exists>p s1. createSqlite3Fallback (originalRequire avail) s = Some (Inr p, s1)
      \<and> (isl (avail ''sqlite3'') \<longrightarrow> p = Sqlite3Fallback)" for s
    by (cases "avail ''sqlite3''") (simp_all add: createSqlite3Fallback_def originalRequire_def)
  have b: "\<exists>p s1. createKeytarFallback (originalRequire avail) s = Some (Inr p, s1)
      \<and> (isl (avail ''keytar'') \<longrightarrow> p = KeytarFallback (next_map s))" for s
    by (cases "avail ''keytar''")
       (simp_all add: createKeytarFallback_def originalRequire_def new_Map_def console_warn_def)
  have c: "\<exists>p s1. createBcryptFallback (originalRequire avail) s = Some (Inr p, s1)
      \<and> (isl (avail ''bcrypt'') \<longrightarrow>
           p = (case avail ''bcryptjs'' of Inr m \<Rightarrow> BcryptjsFallback (Native m) | Inl e \<Rightarrow> BcryptFallback))" for s
    by (cases "avail ''bcrypt''"; cases "avail ''bcryptjs''")
       (simp_all add: createBcryptFallback_def originalRequire_def)
  have d: "\<exists>fb s1. createFallbacks (originalRequire avail) s = Some (Inr fb, s1)"
  proof -
    from a obtain p1 s1 where 1: "createSqlite3Fallback (originalRequire avail) s = Some (Inr p1, s1)" by blast
    from b obtain p2 s2 where 2: "createKeytarFallback (originalRequire avail) s1 = Some (Inr p2, s2)" by blast
    from c obtain p3 s3 where 3: "createBcryptFallback (originalRequire avail) s2 = Some (Inr p3, s3)" by blast
    show ?thesis by (simp add: createFallbacks_def 1 2 3)
  qed
  show ?thesis
    by (intro conjI a b c d createSqlite3Fallback_no_error createKeytarFallback_no_error
        createBcryptFallback_no_error createFallbacks_no_error)
qed

theorem resolution_never_throws_witness:
  "isl (no_modules ''sqlite3'') \<and> isl (no_modules ''keytar'') \<and> isl (no_modules ''bcrypt'')
   \<and> fst (the (createSqlite3Fallback (originalRequire no_modules) runtime0)) = Inr Sqlite3Fallback
   \<and> fst (the (createKeytarFallback (originalRequire no_modules) runtime0)) = Inr (KeytarFallback 0)
   \<and> fst (the (createBcryptFallback (originalRequire no_modules) runtime0)) = Inr BcryptFallback"
  using resolution_never_throws [where avail = no_modules and s = runtime0
      and require = "originalRequire no_modules" and e = "Error []" and t = runtime0]
  by (auto simp: no_modules_def runtime0_def)

lemma intercepted_sqlite3:
  fixes avail :: "string \<Rightarrow> error + 'm"
  assumes "avail ''sqlite3'' = Inl e"
  shows "setupGlobalFallbacks (originalRequire avail) (Suc depth) ''sqlite3'' s
         = Some (Inr Sqlite3Fallback,
                 console_warn ''sqlite3 native module not available, using memory fallback'' s)"
proof (induction depth)
  case 0
  show ?case using assms by (simp add: originalRequire_def createSqlite3Fallback_def)
next
  case (Suc depth)
  have "setupGlobalFallbacks (originalRequire avail) (Suc (Suc depth)) ''sqlite3'' s
        = createSqlite3Fallback (setupGlobalFallbacks (originalRequire avail) (Suc depth)) s"
    using assms by (simp add: originalRequire_def)
  also have "\<dots> = Some (Inr Sqlite3Fallback,
                 console_warn ''sqlite3 native module not available, using memory fallback'' s)"
    by (simp only: createSqlite3Fallback_def Suc) simp
  finally show ?case .
qed

lemma intercepted_keytar:
  fixes avail :: "string \<Rightarrow> error + 'm"
  assumes "avail ''keytar'' = Inl e"
  shows "setupGlobalFallbacks (originalRequire avail) (Suc depth) ''keytar'' s
         = Some (Inr (KeytarFallback (next_map s)),
                 snd (new_Map (console_warn ''keytar native module not available, using memory fallback'' s)))"
proof (induction depth)
  case 0
  show ?case using assms
    by (simp add: originalRequire_def createKeytarFallback_def new_Map_def console_warn_def)
next
  case (Suc depth)
  have "setupGlobalFallbacks (originalRequire avail) (Suc (Suc depth)) ''keytar'' s
        = createKeytarFallback (setupGlobalFallbacks (originalRequire avail) (Suc depth)) s"
    using assms by (simp add: originalRequire_def)
  also have "\<dots> = Some (Inr (KeytarFallback (next_map s)),
                 snd (new_Map (console_warn ''keytar native module not available, using memory fallback'' s)))"
    by (simp only: createKeytarFallback_def Suc) simp
  finally show ?case .
qed

lemma intercepted_bcrypt:
  fixes avail :: "string \<Rightarrow> error + 'm"
  assumes "avail ''bcrypt'' = Inl e"
  shows "\<exists>p s1. setupGlobalFallbacks (originalRequire avail) (Suc depth) ''bcrypt'' s = Some (Inr p, s1)
           \<and> (p = BcryptFallback \<or> (\<exists>m. p = BcryptjsFallback m))"
proof (induction depth)
  case 0
  show ?case using assms by (simp add: originalRequire_def createBcryptFallback_def)
next
  case (Suc depth)
  then obtain p s1 where
    r: "setupGlobalFallbacks (originalRequire avail) (Suc depth) ''bcrypt'' s = Some (Inr p, s1)"
    and p: "p = BcryptFallback \<or> (\<exists>m. p = BcryptjsFallback m)" by blast
  have "setupGlobalFallbacks (originalRequire avail) (Suc (Suc depth)) ''bcrypt'' s
        = createBcryptFallback (setupGlobalFallbacks (originalRequire avail) (Suc depth)) s"
    using assms by (simp add: originalRequire_def)
  also have "\<dots> = Some (Inr p, s1)"
    by (simp only: createBcryptFallback_def r) simp
  finally show ?case using p by blast
qed

text \<open>
  C6. With room on the stack for the load, the replacement of \<^verbatim>\<open>Module.prototype.require\<close>
  calls the original first. A module the original loads is returned as it is, whatever
  its name; under any other name than the three, the original's error is thrown
  unchanged; and whenever the replacement returns something else than the original did,
  the original had thrown and the name is one of \<^verbatim>\<open>sqlite3\<close>, \<^verbatim>\<open>keytar\<close>, \<^verbatim>\<open>bcrypt\<close>. Under
  these three names, when Node's own \<^verbatim>\<open>require\<close> cannot load the module, the replacement
  returns a fallback provider in place of the error.
\<close>

theorem interception_delegates_first:
  fixes original :: "'m loader" and avail :: "string \<Rightarrow> error + 'm"
  shows
  "(original ident s = None \<longrightarrow> setupGlobalFallbacks original (Suc depth) ident s = None)
   \<and> (original ident s = Some (Inr m, s1) \<longrightarrow>
        setupGlobalFallbacks original (Suc depth) ident s = Some (Inr m, s1))
   \<and> (original ident s = Some (Inl e, s1) \<and> ident \<notin> {''sqlite3'', ''keytar'', ''bcrypt''} \<longrightarrow>
        setupGlobalFallbacks original (Suc depth) ident s = Some (Inl e, s1))
   \<and> (setupGlobalFallbacks original (Suc depth) ident s = Some r \<and> original ident s \<noteq> Some r \<longrightarrow>
        ident \<in> {''sqlite3'', ''keytar'', ''bcrypt''} \<and> (\<exists>e s1. original ident s = Some (Inl e, s1)))
   \<and> (avail ''sqlite3'' = Inl e1 \<longrightarrow>
        setupGlobalFallbacks (originalRequire avail) (Suc depth) ''sqlite3'' s
          = Some (Inr Sqlite3Fallback,
                  console_warn ''sqlite3 native module not available, using memory fallback'' s))
   \<and> (avail ''keytar'' = Inl e2 \<longrightarrow>
        setupGlobalFallbacks (originalRequire avail) (Suc depth) ''keytar'' s
          = Some (Inr (KeytarFallback (next_map s)),
                  snd (new_Map (console_warn ''keytar native module not available, using memory fallback'' s))))
   \<and> (avail ''bcrypt'' = Inl e3 \<longrightarrow>
        (\<exists>p s2. setupGlobalFallbacks (originalRequire avail) (Suc depth) ''bcrypt'' s = Some (Inr p, s2)
           \<and> (p = BcryptFallback \<or> (\<exists>m. p = BcryptjsFallback m))))"
proof -
  have 1: "original ident s = None \<longrightarrow> setupGlobalFallbacks original (Suc depth) ident s = None"
    by simp
  have 2: "original ident s = Some (Inr m, s1) \<longrightarrow>
        setupGlobalFallbacks original (Suc depth) ident s = Some (Inr m, s1)"
    by simp
  have 3: "original ident s = Some (Inl e, s1) \<and> ident \<notin> {''sqlite3'', ''keytar'', ''bcrypt''} \<longrightarrow>
        setupGlobalFallbacks original (Suc depth) ident s = Some (Inl e, s1)"
    by simp
  have 4: "setupGlobalFallbacks original (Suc depth) ident s = Some r \<and> original ident s \<noteq> Some r \<longrightarrow>
        ident \<in> {''sqlite3'', ''keytar'', ''bcrypt''} \<and> (\<exists>e s1. original ident s = Some (Inl e, s1))"
    by (auto split: option.splits sum.splits if_splits)
  show ?thesis
    by (intro conjI 1 2 3 4 impI intercepted_sqlite3 intercepted_keytar intercepted_bcrypt)
qed

theorem interception_delegates_first_witness:
  "never_returns ''keytar'' runtime0 = None
   \<and> setupGlobalFallbacks never_returns (Suc 0) ''keytar'' runtime0 = None
   \<and> originalRequire all_modules ''sqlite3'' runtime0 = Some (Inr (Native ()), runtime0)
   \<and> setupGlobalFallbacks (originalRequire all_modules) (Suc 0) ''sqlite3'' runtime0
       = Some (Inr (Native ()), runtime0)
   \<and> originalRequire no_modules ''fs-extra'' runtime0
       = Some (Inl (Error ''Cannot find module fs-extra''), runtime0)
   \<and> ''fs-extra'' \<notin> {''sqlite3'', ''keytar'', ''bcrypt''}
   \<and> setupGlobalFallbacks (originalRequire no_modules) (Suc 0) ''fs-extra'' runtime0
       = Some (Inl (Error ''Cannot find module fs-extra''), runtime0)
   \<and> no_modules ''sqlite3'' = Inl (Error ''Cannot find module sqlite3'')
   \<and> setupGlobalFallbacks (originalRequire no_modules) (Suc (Suc (Suc 0))) ''sqlite3'' runtime0
       = Some (Inr Sqlite3Fallback,
               console_warn ''sqlite3 native module not available, using memory fallback'' runtime0)
   \<and> originalRequire no_modules ''sqlite3'' runtime0
       \<noteq> Some (Inr Sqlite3Fallback,
               console_warn ''sqlite3 native module not available, using memory fallback'' runtime0)
   \<and> ''sqlite3'' \<in> {''sqlite3'', ''keytar'', ''bcrypt''}
   \<and> no_modules ''keytar'' = Inl (Error ''Cannot find module keytar'')
   \<and> setupGlobalFallbacks (originalRequire no_modules) (Suc (Suc (Suc 0))) ''keytar'' runtime0
       = Some (Inr (KeytarFallback (next_map runtime0)),
               snd (new_Map (console_warn ''keytar native module not available, using memory fallback'' runtime0)))
   \<and> no_modules ''bcrypt'' = Inl (Error ''Cannot find module bcrypt'')
   \<and> (\<exists>p s2. setupGlobalFallbacks (originalRequire no_modules) (Suc (Suc (Suc 0))) ''bcrypt'' runtime0
                 = Some (Inr p, s2)
           \<and> (p = BcryptFallback \<or> (\<exists>m. p = BcryptjsFallback m)))"
proof -
  have h1: "never_returns ''keytar'' runtime0 = None" by (simp add: never_returns_def)
  have h2: "originalRequire all_modules ''sqlite3'' runtime0 = Some (Inr (Native ()), runtime0)"
    by (simp add: originalRequire_def all_modules_def)
  have h3: "originalRequire no_modules ''fs-extra'' runtime0
     = Some (Inl (Error ''Cannot find module fs-extra''), runtime0)"
    by (simp add: originalRequire_def no_modules_def)
  have n: "''fs-extra'' \<notin> {''sqlite3'', ''keytar'', ''bcrypt''}" by simp
  have a1: "no_modules ''sqlite3'' = Inl (Error ''Cannot find module sqlite3'')"
    by (simp add: no_modules_def)
  have a2: "no_modules ''keytar'' = Inl (Error ''Cannot find module keytar'')"
    by (simp add: no_modules_def)
  have a3: "no_modules ''bcrypt'' = Inl (Error ''Cannot find module bcrypt'')"
    by (simp add: no_modules_def)
  have h5: "originalRequire no_modules ''sqlite3'' runtime0
       \<noteq> Some (Inr Sqlite3Fallback,
               console_warn ''sqlite3 native module not available, using memory fallback'' runtime0)"
    by (simp add: originalRequire_def no_modules_def)
  note t1 = interception_delegates_first [where original = never_returns
         and ident = "''keytar''" and s = runtime0 and depth = 0]
  note t2 = interception_delegates_first [where original = "originalRequire all_modules"
         and ident = "''sqlite3''" and s = runtime0 and ?s1.0 = runtime0 and depth = 0
         and m = "Native ()"]
  note t3 = interception_delegates_first [where original = "originalRequire no_modules"
         and ident = "''fs-extra''" and s = runtime0 and ?s1.0 = runtime0 and depth = 0
         and e = "Error ''Cannot find module fs-extra''"]
  note t4 = interception_delegates_first [where original = "originalRequire no_modules"
         and avail = no_modules
         and ident = "''sqlite3''" and s = runtime0 and depth = "Suc (Suc 0)"
         and ?e1.0 = "Error ''Cannot find module sqlite3''"
         and ?e2.0 = "Error ''Cannot find module keytar''"
         and ?e3.0 = "Error ''Cannot find module bcrypt''"
         and r = "(Inr Sqlite3Fallback,
               console_warn ''sqlite3 native module not available, using memory fallback'' runtime0)"]
  note t5 = conjunct2 [OF conjunct2 [OF conjunct2 [OF conjunct2 [OF t4]]]]
  have c1: "setupGlobalFallbacks never_returns (Suc 0) ''keytar'' runtime0 = None"
    by (rule mp [OF conjunct1 [OF t1] h1])
  have c2: "setupGlobalFallbacks (originalRequire all_modules) (Suc 0) ''sqlite3'' runtime0
       = Some (Inr (Native ()), runtime0)"
    by (rule mp [OF conjunct1 [OF conjunct2 [OF t2]] h2])
  have c3: "setupGlobalFallbacks (originalRequire no_modules) (Suc 0) ''fs-extra'' runtime0
     = Some (Inl (Error ''Cannot find module fs-extra''), runtime0)"
    by (rule mp [OF conjunct1 [OF conjunct2 [OF conjunct2 [OF t3]]]]) (intro conjI h3 n)
  have c5: "setupGlobalFallbacks (originalRequire no_modules) (Suc (Suc (Suc 0))) ''sqlite3'' runtime0
       = Some (Inr Sqlite3Fallback,
               console_warn ''sqlite3 native module not available, using memory fallback'' runtime0)"
    by (rule mp [OF conjunct1 [OF t5] a1])
  have c4: "''sqlite3'' \<in> {''sqlite3'', ''keytar'', ''bcrypt''}"
    by (rule conjunct1 [OF mp [OF conjunct1 [OF conjunct2 [OF conjunct2 [OF conjunct2 [OF t4]]]]]])
       (intro conjI c5 h5)
  have c6: "setupGlobalFallbacks (originalRequire no_modules) (Suc (Suc (Suc 0))) ''keytar'' runtime0
       = Some (Inr (KeytarFallback (next_map runtime0)),
               snd (new_Map (console_warn ''keytar native module not available, using memory fallback'' runtime0)))"
    by (rule mp [OF conjunct1 [OF conjunct2 [OF t5]] a2])
  have c7: "\<exists>p s2. setupGlobalFallbacks (originalRequire no_modules) (Suc (Suc (Suc 0))) ''bcrypt'' runtime0
                 = Some (Inr p, s2)
           \<and> (p = BcryptFallback \<or> (\<exists>m. p = BcryptjsFallback m))"
    by (rule mp [OF conjunct2 [OF conjunct2 [OF t5]] a3])
  show ?thesis by (intro conjI h1 c1 h2 c2 h3 n c3 a1 c5 h5 c4 a2 c6 a3 c7)
qed

text \<open>
  C4. Nothing is cached: the claim fails. Two resolutions of the secret store in one
  process, with no \<^verbatim>\<open>keytar\<close> to load, return two different provider objects, and a
  password stored through the first is not found through the second.
\<close>

theorem keytar_resolved_twice_counterexample:
  "fst (the (createKeytarFallback (originalRequire no_modules) runtime0)) = Inr (KeytarFallback 0)
   \<and> fst (the (createKeytarFallback (originalRequire no_modules) runtime1)) = Inr (KeytarFallback 1)
   \<and> fst (the (createKeytarFallback (originalRequire no_modules) runtime1))
       \<noteq> fst (the (createKeytarFallback (originalRequire no_modules) runtime0))
   \<and> fst (getPassword 0 ''svc'' ''user'' (snd (setPassword 0 ''svc'' ''user'' ''p@ss'' runtime2)))
       = Resolved (Some ''p@ss'')
   \<and> fst (getPassword 1 ''svc'' ''user'' (snd (setPassword 0 ''svc'' ''user'' ''p@ss'' runtime2)))
       = Resolved None"
  by (simp add: runtime2_def runtime1_def runtime0_def no_modules_def createKeytarFallback_def
      originalRequire_def new_Map_def console_warn_def getPassword_def setPassword_def store_key_def)

text \<open>
  C4, as amended. Every resolution of the secret store whose \<^verbatim>\<open>require('keytar')\<close> fails
  builds a new provider around a new, empty Map: two resolutions in a row return
  different providers, and a password set through the first is not found through the
  second.
\<close>

theorem keytar_resolution_is_fresh:
  fixes avail :: "string \<Rightarrow> error + 'm"
  assumes "avail ''keytar'' = Inl e"
  shows "\<exists>a s1 b s2.
           createKeytarFallback (originalRequire avail) s = Some (Inr (KeytarFallback a), s1)
         \<and> createKeytarFallback (originalRequire avail) s1 = Some (Inr (KeytarFallback b), s2)
         \<and> a \<noteq> b
         \<and> maps s1 a = [] \<and> maps s2 b = []
         \<and> fst (getPassword b service account (snd (setPassword a service account password s2)))
             = Resolved None"
  using assms
  by (simp add: createKeytarFallback_def originalRequire_def new_Map_def console_warn_def
      getPassword_def setPassword_def)

theorem keytar_resolution_is_fresh_witness:
  "no_modules ''keytar'' = Inl (Error ''Cannot find module keytar'')
   \<and> (\<exists>a s1 b s2.
           createKeytarFallback (originalRequire no_modules) runtime0 = Some (Inr (KeytarFallback a), s1)
         \<and> createKeytarFallback (originalRequire no_modules) s1 = Some (Inr (KeytarFallback b), s2)
         \<and> a \<noteq> b
         \<and> maps s1 a = [] \<and> maps s2 b = []
         \<and> fst (getPassword b ''svc'' ''user'' (snd (setPassword a ''svc'' ''user'' ''p@ss'' s2)))
             = Resolved None)"
proof -
  have h: "no_modules ''keytar'' = Inl (Error ''Cannot find module keytar'')"
    by (simp add: no_modules_def)
  from keytar_resolution_is_fresh [where avail = no_modules and s = runtime0
        and service = "''svc''" and account = "''user''" and password = "''p@ss''", OF h] h
  show ?thesis by blast
qed

section \<open>The command line\<close>

text \<open>
  C9. The claim fails when \<^verbatim>\<open>--output\<close> is given: a Windows target with the output
  \<^verbatim>\<open>app-win\<close> has no \<^verbatim>\<open>.exe\<close> suffix, and the default Linux target with the output
  \<^verbatim>\<open>setup.exe\<close> has one.
\<close>

theorem exe_suffix_counterexample:
  "includes_str (target (options (new_ExecutableBuilder scripts_dir
       (parseArgs [''--target'', ''win-x64'', ''--output'', ''app-win''])))) ''win''
   \<and> \<not> suffix ''.exe'' (outputName (options (new_ExecutableBuilder scripts_dir
       (parseArgs [''--target'', ''win-x64'', ''--output'', ''app-win'']))))
   \<and> \<not> includes_str (target (options (new_ExecutableBuilder scripts_dir
       (parseArgs [''--output'', ''setup.exe''])))) ''win''
   \<and> suffix ''.exe'' (outputName (options (new_ExecutableBuilder scripts_dir
       (parseArgs [''--output'', ''setup.exe'']))))"
  by (simp add: new_ExecutableBuilder_def parseArgs_def suffix_to_prefix Let_def)

text \<open>
  C9, as amended. When \<^verbatim>\<open>--output\<close> is not given a value, the output name ends in
  \<^verbatim>\<open>.exe\<close> exactly when the target contains \<^verbatim>\<open>win\<close>; when it is given one, the output
  name is that value, whatever the target.
\<close>

theorem exe_suffix_when_output_defaulted:
  "(arg_after ''--output'' args = None \<longrightarrow>
      (suffix ''.exe'' (outputName (options (new_ExecutableBuilder dirname (parseArgs args))))
       \<longleftrightarrow> includes_str (target (options (new_ExecutableBuilder dirname (parseArgs args)))) ''win''))
   \<and> (arg_after ''--output'' args = Some v \<longrightarrow>
      outputName (options (new_ExecutableBuilder dirname (parseArgs args))) = v)"
  by (cases "arg_after ''--target'' args")
     (auto simp: new_ExecutableBuilder_def parseArgs_def suffix_to_prefix Let_def)

theorem exe_suffix_when_output_defaulted_witness:
  "arg_after ''--output'' [''--target'', ''win-x64'', ''--verbose''] = None
   \<and> suffix ''.exe'' (outputName (options (new_ExecutableBuilder scripts_dir
         (parseArgs [''--target'', ''win-x64'', ''--verbose'']))))
   \<and> includes_str (target (options (new_ExecutableBuilder scripts_dir
         (parseArgs [''--target'', ''win-x64'', ''--verbose''])))) ''win''
   \<and> arg_after ''--output'' [''--target'', ''win-x64'', ''--output'', ''app-win''] = Some ''app-win''
   \<and> outputName (options (new_ExecutableBuilder scripts_dir
         (parseArgs [''--target'', ''win-x64'', ''--output'', ''app-win'']))) = ''app-win''"
proof -
  have a: "arg_after ''--output'' [''--target'', ''win-x64'', ''--verbose''] = None" by simp
  have b: "arg_after ''--output'' [''--target'', ''win-x64'', ''--output'', ''app-win''] = Some ''app-win''" by simp
  have c: "includes_str (target (options (new_ExecutableBuilder scripts_dir
         (parseArgs [''--target'', ''win-x64'', ''--verbose''])))) ''win''"
    by (simp add: new_ExecutableBuilder_def parseArgs_def Let_def)
  from exe_suffix_when_output_defaulted [where args = "[''--target'', ''win-x64'', ''--verbose'']"
         and dirname = scripts_dir]
       exe_suffix_when_output_defaulted [where args = "[''--target'', ''win-x64'', ''--output'', ''app-win'']"
         and v = "''app-win''" and dirname = scripts_dir]
       a b c
  show ?thesis by blast
qed

section \<open>The build strategy cascade\<close>

text \<open>
  Every statement of the three methods but the first line each writes is quiet, and each
  method can only return its own identifier.
\<close>

lemma attempts_append: "attempts (xs @ ys) = attempts xs @ attempts ys"
  by (simp add: attempts_def List.map_filter_def)

lemma quiet_bindA: "quiet m \<Longrightarrow> (\<And>x. quiet (k x)) \<Longrightarrow> quiet (bindA m k)"
  unfolding quiet_def bindA_def
proof
  fix w
  assume m: "\<forall>w. attempts (stdout (snd (m w))) = attempts (stdout w)"
    and k: "\<And>x. \<forall>w. attempts (stdout (snd (k x w))) = attempts (stdout w)"
  obtain r w1 where mw: "m w = (r, w1)" by (cases "m w")
  with m have 1: "attempts (stdout w1) = attempts (stdout w)" by (metis snd_conv)
  show "attempts (stdout (snd (case m w of (Inl e, w1) \<Rightarrow> (Inl e, w1) | (Inr x, w1) \<Rightarrow> k x w1))) = attempts (stdout w)"
    using mw 1 k by (cases r) simp_all
qed

lemma quiet_returnA: "quiet (returnA x)"
  by (simp add: quiet_def returnA_def)

lemma quiet_fs_do: "quiet (fs_do f)"
  by (simp add: quiet_def fs_do_def split: sum.splits)

lemma quiet_log: "attempt_of (Log type msg) = None \<Longrightarrow> quiet (log msg type)"
  by (simp add: quiet_def log_def attempts_append) (simp add: attempts_def map_filter_simps)

lemma quiet_executeCommand: "quiet (executeCommand b os c cwd)"
  by (simp add: quiet_def executeCommand_def log_def attempts_append Let_def split: prod.splits outcome.splits)
     (simp add: attempts_def map_filter_simps)

lemma quiet_awaitA: "quiet p \<Longrightarrow> quiet (awaitA p)"
  by (simp add: quiet_def awaitA_def split: prod.splits) (metis snd_conv)

lemma quiet_if: "quiet m \<Longrightarrow> quiet n \<Longrightarrow> quiet (\<lambda>w. if c w then m w else n w)"
  by (simp add: quiet_def)

lemma quiet_copyEach: "(\<And>f. quiet (after f)) \<Longrightarrow> quiet (copyEach src dst after fs)"
proof (induction fs)
  case Nil
  then show ?case by (simp add: quiet_returnA)
next
  case (Cons f fs)
  have "quiet (bindA (fs_do (copy (path_join src f) (path_join dst f))) (\<lambda>_. bindA (after f) (\<lambda>_. copyEach src dst after fs)))"
    by (intro quiet_bindA quiet_fs_do Cons)
  then show ?case using Cons by (simp add: quiet_def)
qed

lemma quiet_writeLauncher: "quiet (writeLauncher b entry)"
  unfolding writeLauncher_def by (auto intro!: quiet_bindA quiet_fs_do)

lemma marker_log:
  "attempt_of (Log type msg) = Some s \<Longrightarrow> (\<And>x. quiet (k x)) \<Longrightarrow>
   attempts (stdout (snd (bindA (log msg type) k w))) = attempts (stdout w) @ [s]"
proof -
  assume a: "attempt_of (Log type msg) = Some s" and k: "\<And>x. quiet (k x)"
  have "attempts (stdout (snd (k () (snd (log msg type w))))) = attempts (stdout (snd (log msg type w)))"
    using k [of "()"] by (simp add: quiet_def)
  also have "\<dots> = attempts (stdout w) @ [s]"
    using a by (simp add: log_def attempts_append) (simp add: attempts_def map_filter_simps)
  finally show ?thesis by (simp add: bindA_def log_def)
qed

lemma method1_attempts:
  "attempts (stdout (snd (method1 b os w))) = attempts (stdout w) @ [Bundle]"
  unfolding method1_def Let_def
  by (rule marker_log, simp)
     (intro quiet_bindA quiet_awaitA quiet_executeCommand quiet_fs_do quiet_copyEach quiet_returnA
        quiet_writeLauncher quiet_log, simp add: check_mark_def)

lemma quiet_skip: "quiet (Pair (Inr ()))"
  by (simp add: quiet_def)

lemma method2_attempts:
  "attempts (stdout (snd (method2 b os w))) = attempts (stdout w) @ [Pack]"
  unfolding method2_def Let_def
  by (rule marker_log, simp)
     (intro quiet_bindA quiet_awaitA quiet_executeCommand quiet_fs_do quiet_if quiet_returnA
        quiet_log quiet_skip, simp add: check_mark_def)

lemma method3_attempts:
  "attempts (stdout (snd (method3 b w))) = attempts (stdout w) @ [Basic]"
  unfolding method3_def Let_def
  by (rule marker_log, simp)
     (intro quiet_bindA quiet_fs_do quiet_returnA quiet_writeLauncher quiet_log, simp add: check_mark_def)

lemma yields_bindA: "(\<And>x. yields (k x) v) \<Longrightarrow> yields (bindA m k) v"
  unfolding yields_def bindA_def
proof
  fix w
  assume k: "\<And>x. \<forall>w. case fst (k x w) of Inl e \<Rightarrow> True | Inr x \<Rightarrow> x = v"
  obtain r w1 where mw: "m w = (r, w1)" by (cases "m w")
  show "case fst (case m w of (Inl e, w1) \<Rightarrow> (Inl e, w1) | (Inr x, w1) \<Rightarrow> k x w1) of
          Inl e \<Rightarrow> True | Inr x \<Rightarrow> x = v"
    using mw k by (cases r) simp_all
qed

lemma yields_returnA: "yields (returnA v) v"
  by (simp add: yields_def returnA_def)

lemma method1_yields: "yields (method1 b os) ''ncc''"
  unfolding method1_def Let_def by (intro yields_bindA yields_returnA)

lemma method2_yields: "yields (method2 b os) ''pkg''"
  unfolding method2_def Let_def by (intro yields_bindA yields_returnA)

lemma method3_yields: "yields (method3 b) ''basic''"
  unfolding method3_def Let_def by (intro yields_bindA yields_returnA)


lemma yieldsD: "yields m v \<Longrightarrow> m w = (Inr x, w1) \<Longrightarrow> x = v"
proof -
  assume y: "yields m v" and m: "m w = (Inr x, w1)"
  from y have "case fst (m w) of Inr x \<Rightarrow> x = v | Inl e \<Rightarrow> True" unfolding yields_def by blast
  with m show ?thesis by simp
qed

lemma quiet_logD:
  "attempt_of (Log type msg) = None \<Longrightarrow> attempts (stdout (snd (log msg type w))) = attempts (stdout w)"
  using quiet_log [of type msg] by (simp add: quiet_def)

lemma build_step1:
  "method1 b os (snd (log (''Building executable for '' @ target (options b) @ ''...'') LInfo w)) = (Inr x, w1)
   \<Longrightarrow> buildExecutable b os w = (Inr x, w1)"
  by (simp add: buildExecutable_def bindA_def catchA_def log_def)

lemma build_step2:
  "method1 b os (snd (log (''Building executable for '' @ target (options b) @ ''...'') LInfo w)) = (Inl e1, w1)
   \<Longrightarrow> method2 b os (snd (log (''ncc bundling failed: '' @ message e1) LWarning w1)) = (Inr x, w3)
   \<Longrightarrow> buildExecutable b os w = (Inr x, w3)"
  by (simp add: buildExecutable_def bindA_def catchA_def log_def)

lemma build_step3:
  "method1 b os (snd (log (''Building executable for '' @ target (options b) @ ''...'') LInfo w)) = (Inl e1, w1)
   \<Longrightarrow> method2 b os (snd (log (''ncc bundling failed: '' @ message e1) LWarning w1)) = (Inl e2, w3)
   \<Longrightarrow> buildExecutable b os w = method3 b (snd (log (''pkg failed: '' @ message e2) LWarning w3))"
  by (simp add: buildExecutable_def bindA_def catchA_def log_def)

text \<open>
  What was started, against what is returned: bundle only and \<^verbatim>\<open>ncc\<close>; bundle, then
  pack, and \<^verbatim>\<open>pkg\<close>; or all three, in order, and \<^verbatim>\<open>basic\<close> or an error.
\<close>

lemma cascade_trace:
  "(fst (buildExecutable b os w) = Inr ''ncc''
      \<and> attempts (stdout (snd (buildExecutable b os w))) = attempts (stdout w) @ [Bundle])
   \<or> (fst (buildExecutable b os w) = Inr ''pkg''
      \<and> attempts (stdout (snd (buildExecutable b os w))) = attempts (stdout w) @ [Bundle, Pack])
   \<or> ((fst (buildExecutable b os w) = Inr ''basic'' \<or> (\<exists>e. fst (buildExecutable b os w) = Inl e))
      \<and> attempts (stdout (snd (buildExecutable b os w))) = attempts (stdout w) @ [Bundle, Pack, Basic])"
proof -
  define w0 where "w0 = snd (log (''Building executable for '' @ target (options b) @ ''...'') LInfo w)"
  have w0: "attempts (stdout w0) = attempts (stdout w)"
    unfolding w0_def by (rule quiet_logD) simp
  obtain r1 w1 where m1: "method1 b os w0 = (r1, w1)" by (cases "method1 b os w0")
  have a1: "attempts (stdout w1) = attempts (stdout w) @ [Bundle]"
    using method1_attempts [of b os w0] by (simp only: m1 w0 snd_conv)
  show ?thesis
  proof (cases r1)
    case (Inr x)
    with m1 have "x = ''ncc''" using yieldsD [OF method1_yields] by blast
    with Inr m1 have "buildExecutable b os w = (Inr ''ncc'', w1)"
      using build_step1 [of b os w] by (simp only: w0_def)
    with a1 show ?thesis by (simp only: fst_conv snd_conv simp_thms)
  next
    case (Inl nccError)
    define w2 where "w2 = snd (log (''ncc bundling failed: '' @ message nccError) LWarning w1)"
    have "attempts (stdout w2) = attempts (stdout w1)"
      unfolding w2_def by (rule quiet_logD) simp
    with a1 have w2: "attempts (stdout w2) = attempts (stdout w) @ [Bundle]" by simp
    obtain r2 w3 where m2: "method2 b os w2 = (r2, w3)" by (cases "method2 b os w2")
    have a2: "attempts (stdout w3) = attempts (stdout w) @ [Bundle, Pack]"
      using method2_attempts [of b os w2] by (simp only: m2 w2 snd_conv append_assoc append_Cons append_Nil)
    show ?thesis
    proof (cases r2)
      case (Inr x)
      with m2 have "x = ''pkg''" using yieldsD [OF method2_yields] by blast
      with Inr Inl m1 m2 have "buildExecutable b os w = (Inr ''pkg'', w3)"
        using build_step2 [of b os w nccError w1] by (simp only: w0_def w2_def)
      with a2 show ?thesis by (simp only: fst_conv snd_conv simp_thms)
    next
      case (Inl pkgError)
      define w4 where "w4 = snd (log (''pkg failed: '' @ message pkgError) LWarning w3)"
      have "attempts (stdout w4) = attempts (stdout w3)"
        unfolding w4_def by (rule quiet_logD) simp
      with a2 have w4: "attempts (stdout w4) = attempts (stdout w) @ [Bundle, Pack]" by simp
      have a3: "attempts (stdout (snd (method3 b w4))) = attempts (stdout w) @ [Bundle, Pack, Basic]"
        using method3_attempts [of b w4] by (simp only: w4 append_assoc append_Cons append_Nil)
      have r3: "fst (method3 b w4) = Inr ''basic'' \<or> (\<exists>e. fst (method3 b w4) = Inl e)"
      proof (cases "method3 b w4")
        case (Pair r w5)
        show ?thesis
        proof (cases r)
          case (Inr x)
          with Pair have "x = ''basic''" using yieldsD [OF method3_yields] by blast
          with Inr Pair show ?thesis by simp
        next
          case (Inl e)
          with Pair show ?thesis by simp
        qed
      qed
      from Inl \<open>r1 = Inl nccError\<close> m1 m2 have "buildExecutable b os w = method3 b w4"
        using build_step3 [of b os w nccError w1 pkgError w3] by (simp only: w0_def w2_def w4_def)
      with a3 r3 show ?thesis by (simp only: simp_thms)
    qed
  qed
qed

section \<open>Workspace cleanup\<close>

text \<open>Both ways out of \<open>run\<close> pass through \<open>cleanup\<close> last, but for a line of output.\<close>

lemma bindA_InrE:
  assumes "bindA m k w = (Inr y, w2)"
  obtains x w1 where "m w = (Inr x, w1)" and "k x w1 = (Inr y, w2)"
  using assms by (auto simp: bindA_def split: prod.splits sum.splits)

lemma cleanup_returns: "fst (cleanup b w) = Inr ()"
  by (simp add: cleanup_def log_def)

lemma cleanup_gone: "\<not> skipCleanup (options b) \<Longrightarrow> files (snd (cleanup b w)) (tempDir b) = None"
  by (simp add: cleanup_def log_def remove_def existsSync_def)

lemma cleanup_absent: "\<not> existsSync (files w) (tempDir b) \<Longrightarrow> cleanup b w = (Inr (), w)"
  by (simp add: cleanup_def)

lemma cleanup_twice: "cleanup b (snd (cleanup b w)) = (Inr (), snd (cleanup b w))"
  by (simp add: cleanup_def log_def remove_def existsSync_def)

lemma log_files: "log msg type w = (r, w1) \<Longrightarrow> files w1 = files w"
  by (auto simp: log_def)

lemma run_try_gone:
  assumes "\<not> skipCleanup (options b)" and "run_try b os w = (Inr u, w1)"
  shows "files w1 (tempDir b) = None"
proof -
  from assms(2) obtain w7 w8 x where c: "cleanup b w7 = (Inr x, w8)"
    and l: "log (party_emoji @ '' Build completed successfully!'') LSuccess w8 = (Inr u, w1)"
    unfolding run_try_def using assms(1) by (elim bindA_InrE) simp
  from c cleanup_gone [OF assms(1), of w7] have "files w8 (tempDir b) = None" by simp
  with log_files [OF l] show ?thesis by simp
qed

lemma run_gone:
  assumes "\<not> skipCleanup (options b)"
  shows "files (snd (run b os w)) (tempDir b) = None"
proof (cases "run_try b os w")
  case (Pair r w1)
  show ?thesis
  proof (cases r)
    case (Inr u)
    with Pair run_try_gone [OF assms, of os w u w1] show ?thesis by (simp add: run_def)
  next
    case (Inl e)
    with Pair assms cleanup_gone [OF assms] show ?thesis
      by (simp add: run_def bindA_def log_def)
  qed
qed

lemma path_join_temp_build: "path_join p ''temp-build'' = p @ [''temp-build'']"
  by (simp add: path_join_def)

lemma builder0_simps:
  "options builder0 = \<lparr>target = ''linux-x64'', outputName = ''cross-exchange-daemon-linux'', verbose = False, skipCleanup = False\<rparr>"
  "workDir builder0 = [''home'', ''ci'', ''daemon'']"
  "tempDir builder0 = [''home'', ''ci'', ''daemon'', ''temp-build'']"
  "launcherPath builder0 = [''home'', ''ci'', ''daemon'', ''cross-exchange-daemon-linux'']"
  by (simp_all add: builder0_def new_ExecutableBuilder_def parseArgs_def scripts_dir_def Let_def
      path_join_def launcherPath_def)

text \<open>
  C2. With \<^verbatim>\<open>skipCleanup\<close> false, the scratch directory does not exist when \<open>run\<close> ends,
  whether it returns or exits with code 1 and whichever strategy built the artifact.
  \<open>cleanup\<close> never throws, a second call changes nothing, and it leaves the world as it
  is when the directory is absent. The scratch directory is \<^verbatim>\<open>temp-build\<close> under the
  project root. (\<^verbatim>\<open>fs.remove\<close> is taken to remove what it is asked to remove.)
\<close>

theorem workspace_removed:
  "(\<not> skipCleanup (options b) \<longrightarrow> \<not> existsSync (files (snd (run b os w))) (tempDir b))
   \<and> fst (cleanup b w) = Inr ()
   \<and> cleanup b (snd (cleanup b w)) = (Inr (), snd (cleanup b w))
   \<and> (\<not> existsSync (files w) (tempDir b) \<longrightarrow> cleanup b w = (Inr (), w))
   \<and> tempDir (new_ExecutableBuilder dirname given)
       = workDir (new_ExecutableBuilder dirname given) @ [''temp-build'']"
proof -
  have 1: "\<not> skipCleanup (options b) \<longrightarrow> \<not> existsSync (files (snd (run b os w))) (tempDir b)"
    using run_gone [of b os w] by (simp add: existsSync_def)
  have 5: "tempDir (new_ExecutableBuilder dirname given)
       = workDir (new_ExecutableBuilder dirname given) @ [''temp-build'']"
    by (simp add: new_ExecutableBuilder_def Let_def path_join_temp_build)
  from 1 5 cleanup_returns [of b w] cleanup_twice [of b w] cleanup_absent [of w b]
  show ?thesis by (intro conjI impI) simp_all
qed

theorem workspace_removed_witness:
  "\<not> skipCleanup (options builder0)
   \<and> \<not> existsSync (files (snd (run builder0 tools_ok world0))) (tempDir builder0)
   \<and> \<not> existsSync (files world0) (tempDir builder0)
   \<and> cleanup builder0 world0 = (Inr (), world0)"
proof -
  have s: "\<not> skipCleanup (options builder0)" by (simp add: builder0_simps)
  have a: "\<not> existsSync (files world0) (tempDir builder0)"
    by (simp add: builder0_simps world0_def checkout_def existsSync_def)
  note t = workspace_removed [where b = builder0 and os = tools_ok and w = world0]
  have 1: "\<not> existsSync (files (snd (run builder0 tools_ok world0))) (tempDir builder0)"
    by (rule mp [OF conjunct1 [OF t] s])
  have 2: "cleanup builder0 world0 = (Inr (), world0)"
    by (rule mp [OF conjunct1 [OF conjunct2 [OF conjunct2 [OF conjunct2 [OF t]]]] a])
  show ?thesis by (intro conjI s 1 a 2)
qed

section \<open>Verification of the artifact\<close>

text \<open>
  No build command is the verification command (it alone ends in \<^verbatim>\<open>--help\<close>), so two
  environments that agree on the build commands go through the same build; and
  \<open>testExecutable\<close> throws exactly when the artifact is missing.
\<close>

lemma last_testCommand: "last (testCommand b) = CHR ''p''"
  by (simp add: testCommand_def)

lemma ne_by_last: "last c \<noteq> CHR ''p'' \<Longrightarrow> c \<noteq> testCommand b"
  using last_testCommand [of b] by auto

lemma npm_ci_ne: "''npm ci'' \<noteq> testCommand b"
  by (rule ne_by_last) simp

lemma npm_install_ne: "''npm install --no-save @vercel/ncc pkg'' \<noteq> testCommand b"
  by (rule ne_by_last) simp

lemma ncc_ne: "nccCommand \<noteq> testCommand b"
  by (rule ne_by_last) (simp add: nccCommand_def)

lemma pkg_ne: "pkgCommand b \<noteq> testCommand b'"
  by (rule ne_by_last) (simp add: pkgCommand_def)

lemma execSync_same:
  "same_tools b os1 os2 \<Longrightarrow> c \<noteq> testCommand b \<Longrightarrow> execSync os1 c d = execSync os2 c d"
  by (rule ext) (simp add: execSync_def same_tools_def)

lemma executeCommand_same:
  "same_tools b os1 os2 \<Longrightarrow> c \<noteq> testCommand b \<Longrightarrow> executeCommand b os1 c d = executeCommand b os2 c d"
  by (rule ext) (simp add: executeCommand_def same_tools_def)

lemma installDependencies_same:
  "same_tools b os1 os2 \<Longrightarrow> installDependencies b os1 = installDependencies b os2"
  by (simp add: installDependencies_def execSync_same [OF _ npm_ci_ne] execSync_same [OF _ npm_install_ne])

lemma method1_same: "same_tools b os1 os2 \<Longrightarrow> method1 b os1 = method1 b os2"
  by (simp add: method1_def executeCommand_same [OF _ ncc_ne])

lemma method2_same: "same_tools b os1 os2 \<Longrightarrow> method2 b os1 = method2 b os2"
  by (simp add: method2_def executeCommand_same [OF _ pkg_ne])

lemma run_build_same: "same_tools b os1 os2 \<Longrightarrow> run_build b os1 = run_build b os2"
  by (simp add: run_build_def buildExecutable_def installDependencies_same method1_same method2_same)

lemma testExecutable_missing:
  "\<not> pathExists (files w) (launcherPath b) \<Longrightarrow> fst (testExecutable b os w) = Inl (Error ''Executable not found'')"
  by (simp add: testExecutable_def bindA_def log_def throwA_def launcherPath_def)

lemma race_cases:
  "race_timeout (executeCommand b os c cwd) ms w = (r, w1) \<Longrightarrow>
   files w1 = snd (snd (os c (case cwd of Some d \<Rightarrow> d | None \<Rightarrow> tempDir b) (files w)))
   \<and> r = (case os c (case cwd of Some d \<Rightarrow> d | None \<Rightarrow> tempDir b) (files w) of
            (Closed code out err, t, fs1) \<Rightarrow>
               if t < ms then
                 (if code = 0 then Inr (if verbose (options b) then [] else out, if verbose (options b) then [] else err, code)
                  else Inl (Error (''Command failed with code '' @ show_int code @ '': '' @
                       (if (if verbose (options b) then [] else err) \<noteq> [] then (if verbose (options b) then [] else err)
                        else (if verbose (options b) then [] else out)))))
               else Inl (Error ''Test timeout'')
          | (SpawnError e, t, fs1) \<Rightarrow> if t < ms then Inl e else Inl (Error ''Test timeout''))"
  by (auto simp: race_timeout_def executeCommand_def log_def Let_def split: prod.splits outcome.splits if_splits)

lemma testExecutable_present:
  assumes "pathExists (files w) (launcherPath b)"
  shows "testExecutable b os w =
     (case race_timeout (executeCommand b os (testCommand b) (Some (workDir b))) 10000
             (snd (log ''Testing built executable...'' LInfo w)) of
        (Inr x, w1) \<Rightarrow> (Inr True, snd (log (check_mark @ '' Executable test passed'') LSuccess w1))
      | (Inl e, w1) \<Rightarrow> (Inr False, snd (log (''Executable test failed: '' @ message e) LWarning w1)))"
  using assms
  by (simp add: testExecutable_def bindA_def catchA_def log_def returnA_def launcherPath_def
      split: prod.splits sum.splits)

lemma testExecutable_returns:
  "pathExists (files w) (launcherPath b) \<Longrightarrow> \<exists>t. fst (testExecutable b os w) = Inr t"
  by (auto simp: testExecutable_present split: prod.splits sum.splits)

lemma run_completion:
  "fst (run b os w) =
     (case run_build b os w of
        (Inl e, w1) \<Rightarrow> Exited 1
      | (Inr m, w1) \<Rightarrow> if pathExists (files w1) (launcherPath b) then Returned else Exited 1)"
proof (cases "run_build b os w")
  case (Pair r w1)
  show ?thesis
  proof (cases r)
    case (Inl e)
    with Pair show ?thesis by (simp add: run_def run_try_def bindA_def)
  next
    case (Inr m)
    show ?thesis
    proof (cases "pathExists (files w1) (launcherPath b)")
      case False
      from testExecutable_missing [OF False, of os] obtain w2 where
        "testExecutable b os w1 = (Inl (Error ''Executable not found''), w2)"
        by (cases "testExecutable b os w1") simp
      with Pair Inr False show ?thesis by (simp add: run_def run_try_def bindA_def)
    next
      case True
      from testExecutable_returns [OF True, of os] obtain t w2 where
        "testExecutable b os w1 = (Inr t, w2)"
        by (cases "testExecutable b os w1") auto
      with Pair Inr True show ?thesis
        by (simp add: run_def run_try_def bindA_def log_def returnA_def cleanup_def)
    qed
  qed
qed

text \<open>
  C7. When the artifact is there, a verification run that exits with a non-zero code
  within the 10 seconds, and one that is not over after 10 seconds, both make
  \<open>testExecutable\<close> return false after a warning line; it does not throw. How \<open>run\<close>
  ends, and so the exit code, is the same for any two environments that differ only in
  what the verification run does.
\<close>

theorem verification_is_advisory:
  "(pathExists (files w) (launcherPath b)
      \<and> os (testCommand b) (workDir b) (files w) = (Closed code out err, t, fs1)
      \<and> code \<noteq> 0 \<and> t < 10000 \<longrightarrow>
        fst (testExecutable b os w) = Inr False
      \<and> (\<exists>m. last (stdout (snd (testExecutable b os w))) = Log LWarning (''Executable test failed: '' @ m)))
   \<and> (pathExists (files w) (launcherPath b)
      \<and> os (testCommand b) (workDir b) (files w) = (ended, t, fs1) \<and> 10000 \<le> t \<longrightarrow>
        fst (testExecutable b os w) = Inr False
      \<and> last (stdout (snd (testExecutable b os w))) = Log LWarning ''Executable test failed: Test timeout'')
   \<and> (same_tools b os1 os2 \<longrightarrow>
        fst (run b os1 w) = fst (run b os2 w)
      \<and> exit_code (fst (run b os1 w)) = exit_code (fst (run b os2 w)))"
proof -
  have a: "pathExists (files w) (launcherPath b)
      \<and> os (testCommand b) (workDir b) (files w) = (Closed code out err, t, fs1)
      \<and> code \<noteq> 0 \<and> t < 10000 \<longrightarrow>
        fst (testExecutable b os w) = Inr False
      \<and> (\<exists>m. last (stdout (snd (testExecutable b os w))) = Log LWarning (''Executable test failed: '' @ m))"
    by (auto simp: testExecutable_present race_timeout_def executeCommand_def log_def Let_def)
  have b: "pathExists (files w) (launcherPath b)
      \<and> os (testCommand b) (workDir b) (files w) = (ended, t, fs1) \<and> 10000 \<le> t \<longrightarrow>
        fst (testExecutable b os w) = Inr False
      \<and> last (stdout (snd (testExecutable b os w))) = Log LWarning ''Executable test failed: Test timeout''"
    by (cases ended) (auto simp: testExecutable_present race_timeout_def executeCommand_def log_def Let_def)
  have c: "same_tools b os1 os2 \<longrightarrow>
        fst (run b os1 w) = fst (run b os2 w)
      \<and> exit_code (fst (run b os1 w)) = exit_code (fst (run b os2 w))"
    by (simp add: run_completion run_build_same)
  from a b c show ?thesis by (intro conjI)
qed

lemma same_tools_hangs: "same_tools builder0 tools_ok test_hangs"
  by (simp add: same_tools_def test_hangs_def)

theorem verification_is_advisory_witness:
  "pathExists (files built0) (launcherPath builder0)
   \<and> test_fails (testCommand builder0) (workDir builder0) (files built0)
        = (Closed 1 [] ''Error: missing credentials'', 120, files built0)
   \<and> fst (testExecutable builder0 test_fails built0) = Inr False
   \<and> test_hangs (testCommand builder0) (workDir builder0) (files built0)
        = (Closed 0 [] [], 60000, files built0)
   \<and> fst (testExecutable builder0 test_hangs built0) = Inr False
   \<and> last (stdout (snd (testExecutable builder0 test_hangs built0)))
        = Log LWarning ''Executable test failed: Test timeout''
   \<and> same_tools builder0 tools_ok test_hangs
   \<and> fst (run builder0 tools_ok world0) = fst (run builder0 test_hangs world0)"
proof -
  have e: "pathExists (files built0) (launcherPath builder0)"
    by (simp add: built0_def builder0_simps pathExists_def)
  have f: "test_fails (testCommand builder0) (workDir builder0) (files built0)
        = (Closed 1 [] ''Error: missing credentials'', 120, files built0)"
    by (simp add: test_fails_def)
  have h: "test_hangs (testCommand builder0) (workDir builder0) (files built0)
        = (Closed 0 [] [], 60000, files built0)"
    by (simp add: test_hangs_def)
  note t1 = verification_is_advisory [where w = built0 and b = builder0 and os = test_fails
      and code = 1 and out = "[]" and err = "''Error: missing credentials''" and t = 120
      and ?fs1.0 = "files built0"]
  note t2 = verification_is_advisory [where w = built0 and b = builder0 and os = test_hangs
      and ended = "Closed 0 [] []" and t = 60000 and ?fs1.0 = "files built0"]
  note t3 = verification_is_advisory [where w = world0 and b = builder0 and ?os1.0 = tools_ok
      and ?os2.0 = test_hangs]
  have 1: "fst (testExecutable builder0 test_fails built0) = Inr False"
    by (rule conjunct1 [OF mp [OF conjunct1 [OF t1]]]) (intro conjI e f, simp_all)
  have 2: "fst (testExecutable builder0 test_hangs built0) = Inr False
      \<and> last (stdout (snd (testExecutable builder0 test_hangs built0)))
        = Log LWarning ''Executable test failed: Test timeout''"
    by (rule mp [OF conjunct1 [OF conjunct2 [OF t2]]]) (intro conjI e h, simp)
  have 3: "fst (run builder0 tools_ok world0) = fst (run builder0 test_hangs world0)"
    by (rule conjunct1 [OF mp [OF conjunct2 [OF conjunct2 [OF t3]] same_tools_hangs]])
  show ?thesis by (intro conjI e f 1 h conjunct1 [OF 2] conjunct2 [OF 2] same_tools_hangs 3)
qed

section \<open>The launcher of the bundle strategy\<close>

text \<open>
  What the file operations of method 1 keep and make: none of them deletes a path, the
  last write puts the script at the launcher path, and \<^verbatim>\<open>ncc\<close> is returned by method 1
  only.
\<close>

lemma result_cases: "(\<And>a b. p = (a, b) \<Longrightarrow> P) \<Longrightarrow> P"
  by (cases p) simp

lemma fs_do_InrD: "fs_do f w = (Inr u, w1) \<Longrightarrow> f (files w) = Inr (files w1)"
  by (auto simp: fs_do_def split: sum.splits)

lemma ensureDir_keeps: "ensureDir p fs = Inr fs1 \<Longrightarrow> fs q \<noteq> None \<Longrightarrow> fs1 q \<noteq> None"
  by (auto simp: ensureDir_def split: if_splits option.splits)

lemma ensureDir_makes: "ensureDir p fs = Inr fs1 \<Longrightarrow> prefix q p \<Longrightarrow> fs1 q \<noteq> None"
  by (auto simp: ensureDir_def split: if_splits option.splits)

lemma copy_keeps: "copy src dst fs = Inr fs1 \<Longrightarrow> fs q \<noteq> None \<Longrightarrow> fs1 q \<noteq> None"
  by (auto simp: copy_def dest: ensureDir_keeps split: option.splits node.splits if_splits sum.splits)

lemma writeFile_keeps: "writeFile p c fs = Inr fs1 \<Longrightarrow> fs q \<noteq> None \<Longrightarrow> fs1 q \<noteq> None"
  by (auto simp: writeFile_def split: option.splits node.splits if_splits)

lemma writeFile_content: "writeFile p c fs = Inr fs1 \<Longrightarrow> content_of (fs1 p) = Some c"
  by (auto simp: writeFile_def split: option.splits node.splits if_splits)

lemma chmod755_keeps: "chmod755 p fs = Inr fs1 \<Longrightarrow> fs q \<noteq> None \<Longrightarrow> fs1 q \<noteq> None"
  by (auto simp: chmod755_def split: option.splits node.splits if_splits)

lemma chmod755_content: "chmod755 p fs = Inr fs1 \<Longrightarrow> content_of (fs1 q) = content_of (fs q)"
  by (auto simp: chmod755_def split: option.splits node.splits if_splits)

lemma copyEach_keeps:
  "copyEach src dst (\<lambda>f. Pair (Inr ())) names w = (r, w1) \<Longrightarrow> files w q \<noteq> None \<Longrightarrow> files w1 q \<noteq> None"
proof (induction names arbitrary: w)
  case Nil
  then show ?case by (simp add: returnA_def)
next
  case (Cons n names)
  show ?case
  proof (cases "pathExists (files w) (path_join src n)")
    case False
    with Cons show ?thesis by simp
  next
    case True
    show ?thesis
    proof (cases "copy (path_join src n) (path_join dst n) (files w)")
      case (Inl e)
      with True Cons.prems show ?thesis
        by (auto simp: bindA_def fs_do_def)
    next
      case (Inr fs1)
      with True Cons.prems have "copyEach src dst (\<lambda>f. Pair (Inr ())) names (w\<lparr>files := fs1\<rparr>) = (r, w1)"
        by (simp add: bindA_def fs_do_def)
      moreover from Inr Cons.prems(2) have "files (w\<lparr>files := fs1\<rparr>) q \<noteq> None"
        by (simp add: copy_keeps)
      ultimately show ?thesis by (rule Cons.IH)
    qed
  qed
qed

lemma writeLauncher_effect:
  assumes "writeLauncher b entry w = (Inr u, w1)"
  shows "content_of (files w1 (launcherPath b)) = Some (Text (launcher_script b entry))"
    and "files w q \<noteq> None \<Longrightarrow> files w1 q \<noteq> None"
proof -
  show "content_of (files w1 (launcherPath b)) = Some (Text (launcher_script b entry))"
  proof (cases "includes_str (target (options b)) ''win''")
    case True
    with assms have "writeFile (launcherPath b) (Text (batch_launcher entry)) (files w) = Inr (files w1)"
      by (simp add: writeLauncher_def fs_do_InrD)
    with True show ?thesis by (simp add: launcher_script_def writeFile_content)
  next
    case False
    with assms obtain w2 where
      a: "fs_do (writeFile (launcherPath b) (Text (bash_launcher entry))) w = (Inr (), w2)"
      and c: "fs_do (chmod755 (launcherPath b)) w2 = (Inr u, w1)"
      by (auto simp: writeLauncher_def elim!: bindA_InrE)
    have "content_of (files w2 (launcherPath b)) = Some (Text (bash_launcher entry))"
      by (rule writeFile_content [OF fs_do_InrD [OF a]])
    with False show ?thesis
      by (simp add: launcher_script_def chmod755_content [OF fs_do_InrD [OF c]])
  qed
  show "files w1 q \<noteq> None" if q: "files w q \<noteq> None"
  proof (cases "includes_str (target (options b)) ''win''")
    case True
    with assms have "writeFile (launcherPath b) (Text (batch_launcher entry)) (files w) = Inr (files w1)"
      by (simp add: writeLauncher_def fs_do_InrD)
    with q show ?thesis by (rule writeFile_keeps [rotated])
  next
    case False
    with assms obtain w2 where
      a: "fs_do (writeFile (launcherPath b) (Text (bash_launcher entry))) w = (Inr (), w2)"
      and c: "fs_do (chmod755 (launcherPath b)) w2 = (Inr u, w1)"
      by (auto simp: writeLauncher_def elim!: bindA_InrE)
    from q have "files w2 q \<noteq> None" by (rule writeFile_keeps [OF fs_do_InrD [OF a]])
    then show ?thesis by (rule chmod755_keeps [OF fs_do_InrD [OF c]])
  qed
qed

lemma path_join_dist: "path_join p ''dist'' = p @ [''dist'']"
  by (simp add: path_join_def)

lemma method1_success:
  assumes "method1 b os w = (Inr x, w9)"
  shows "content_of (files w9 (launcherPath b)) = Some (Text (launcher_script b ''index.js''))"
    and "files w9 (tempDir b) \<noteq> None"
proof -
  from assms obtain w2 w3 w4 w5 w6 w7 w8 u3 u4 u5 u6 u7 u8 where
    e: "fs_do (ensureDir (tempDir b @ [''dist''])) w2 = (Inr u3, w3)"
    and c1: "fs_do (copy (path_join (path_join (tempDir b) ''dist-bundle'') ''index.js'')
                         (path_join (tempDir b @ [''dist'']) ''index.js'')) w3 = (Inr u4, w4)"
    and c2: "fs_do (copy (path_join (tempDir b) ''package.json'')
                         (path_join (tempDir b @ [''dist'']) ''package.json'')) w4 = (Inr u5, w5)"
    and c3: "copyEach (tempDir b) (tempDir b @ [''dist'']) (\<lambda>assetDir. returnA ()) [''assets'', ''contracts''] w5 = (Inr u6, w6)"
    and l: "writeLauncher b ''index.js'' w6 = (Inr u7, w7)"
    and g: "log (check_mark @ '' Executable built successfully with ncc bundling'') LSuccess w7 = (Inr u8, w8)"
    and r: "returnA ''ncc'' w8 = (Inr x, w9)"
    unfolding method1_def Let_def path_join_dist by (elim bindA_InrE)
  from r have w9: "w9 = w8" by (simp add: returnA_def)
  from g have w8: "files w8 = files w7" by (rule log_files)
  from writeLauncher_effect(1) [OF l] w8 w9
  show "content_of (files w9 (launcherPath b)) = Some (Text (launcher_script b ''index.js''))" by simp
  have "files w3 (tempDir b) \<noteq> None"
    by (rule ensureDir_makes [OF fs_do_InrD [OF e]]) simp
  then have "files w4 (tempDir b) \<noteq> None" by (rule copy_keeps [OF fs_do_InrD [OF c1]])
  then have "files w5 (tempDir b) \<noteq> None" by (rule copy_keeps [OF fs_do_InrD [OF c2]])
  then have "files w6 (tempDir b) \<noteq> None" by (rule copyEach_keeps [OF c3 [unfolded returnA_def]])
  then have "files w7 (tempDir b) \<noteq> None" by (rule writeLauncher_effect(2) [OF l])
  with w8 w9 show "files w9 (tempDir b) \<noteq> None" by simp
qed


lemma buildExecutable_ncc:
  assumes "buildExecutable b os w = (Inr ''ncc'', w9)"
  shows "method1 b os (snd (log (''Building executable for '' @ target (options b) @ ''...'') LInfo w))
           = (Inr ''ncc'', w9)"
proof -
  define w0 where "w0 = snd (log (''Building executable for '' @ target (options b) @ ''...'') LInfo w)"
  obtain r1 w1 where m1: "method1 b os w0 = (r1, w1)" by (cases "method1 b os w0")
  show ?thesis
  proof (cases r1)
    case (Inr x)
    with m1 build_step1 [of b os w x w1] assms show ?thesis by (simp add: w0_def)
  next
    case (Inl e1)
    define w2 where "w2 = snd (log (''ncc bundling failed: '' @ message e1) LWarning w1)"
    obtain r2 w3 where m2: "method2 b os w2 = (r2, w3)" by (cases "method2 b os w2")
    show ?thesis
    proof (cases r2)
      case (Inr x)
      with m2 have "x = ''pkg''" using yieldsD [OF method2_yields] by blast
      moreover from Inr Inl m1 m2 have "buildExecutable b os w = (Inr x, w3)"
        using build_step2 [of b os w e1 w1 x w3] by (simp only: w0_def w2_def)
      ultimately show ?thesis using assms by simp
    next
      case (Inl e2)
      define w4 where "w4 = snd (log (''pkg failed: '' @ message e2) LWarning w3)"
      from Inl \<open>r1 = Inl e1\<close> m1 m2 have "buildExecutable b os w = method3 b w4"
        using build_step3 [of b os w e1 w1 e2 w3] by (simp only: w0_def w2_def w4_def)
      with assms have "method3 b w4 = (Inr ''ncc'', w9)" by simp
      then have "''ncc'' = ''basic''" by (rule yieldsD [OF method3_yields])
      then show ?thesis by simp
    qed
  qed
qed

lemma run_build_ncc:
  assumes "fst (run_build b os w) = Inr ''ncc''"
  shows "content_of (files (snd (run_build b os w)) (launcherPath b)) = Some (Text (launcher_script b ''index.js''))"
    and "files (snd (run_build b os w)) (tempDir b) \<noteq> None"
proof -
  from assms obtain w9 where rb: "run_build b os w = (Inr ''ncc'', w9)"
    by (cases "run_build b os w") simp
  then obtain w5 where "buildExecutable b os w5 = (Inr ''ncc'', w9)"
    unfolding run_build_def by (elim bindA_InrE)
  then obtain w6 where m: "method1 b os w6 = (Inr ''ncc'', w9)"
    using buildExecutable_ncc by blast
  from method1_success [OF m] rb
  show "content_of (files (snd (run_build b os w)) (launcherPath b)) = Some (Text (launcher_script b ''index.js''))"
    and "files (snd (run_build b os w)) (tempDir b) \<noteq> None"
    by simp_all
qed

lemma testExecutable_files:
  assumes "pathExists (files w) (launcherPath b)" and "\<forall>d f. snd (snd (os (testCommand b) d f)) = f"
  shows "files (snd (testExecutable b os w)) = files w"
proof -
  obtain r w1 where rc: "race_timeout (executeCommand b os (testCommand b) (Some (workDir b))) 10000
             (snd (log ''Testing built executable...'' LInfo w)) = (r, w1)"
    by (rule result_cases)
  from race_cases [OF rc] assms(2) have "files w1 = files w" by (simp add: log_def)
  with rc show ?thesis
    by (simp add: testExecutable_present [OF assms(1)] log_def split: sum.splits)
qed

lemma run_files:
  assumes ncc: "fst (run_build b os w) = Inr ''ncc''"
    and skip: "\<not> skipCleanup (options b)"
    and ro: "\<forall>d f. snd (snd (os (testCommand b) d f)) = f"
  shows "files (snd (run b os w)) = remove (tempDir b) (files (snd (run_build b os w)))"
    and "fst (run b os w) = Returned"
proof -
  from ncc obtain w9 where rb: "run_build b os w = (Inr ''ncc'', w9)"
    by (cases "run_build b os w") simp
  from run_build_ncc [OF ncc] rb have c: "content_of (files w9 (launcherPath b)) = Some (Text (launcher_script b ''index.js''))"
    and t: "files w9 (tempDir b) \<noteq> None" by simp_all
  from c have ex: "pathExists (files w9) (launcherPath b)"
    by (cases "files w9 (launcherPath b)") (simp_all add: pathExists_def)
  from testExecutable_returns [OF ex, of os] obtain tr w10 where te: "testExecutable b os w9 = (Inr tr, w10)"
    by (cases "testExecutable b os w9") auto
  from testExecutable_files [where b = b and os = os and w = w9, OF ex ro] te have f10: "files w10 = files w9" by simp
  from rb te f10 t skip
  show "files (snd (run b os w)) = remove (tempDir b) (files (snd (run_build b os w)))"
    by (simp add: run_def run_try_def bindA_def log_def cleanup_def existsSync_def)
  from rb ex show "fst (run b os w) = Returned" by (simp add: run_completion)
qed

text \<open>
  C10. A build that succeeded by the bundle strategy, with \<^verbatim>\<open>skipCleanup\<close> false. The
  launcher it wrote holds the script that changes into \<^verbatim>\<open>temp-build/dist\<close> before it
  starts the runtime; \<open>run\<close> returns; and the scratch directory \<^verbatim>\<open>temp-build\<close> does not
  exist when it returns. When the launcher lies outside the scratch directory and the
  verification run leaves the files alone, the launcher still holds that script when
  \<open>run\<close> returns, and \<^verbatim>\<open>temp-build/dist\<close> does not exist.
\<close>

theorem launcher_points_into_removed_workspace:
  assumes "fst (run_build b os w) = Inr ''ncc''" and "\<not> skipCleanup (options b)"
  shows \<open>content_of (files (snd (run_build b os w)) (launcherPath b))
        = Some (Text (launcher_script b ''index.js''))
    \<and> includes_str (bash_launcher ''index.js'') ''cd "$(dirname "$0")/temp-build/dist"''
    \<and> includes_str (batch_launcher ''index.js'')
         (''cd /d "%~dp0'' @ [CHR 0x5C] @ ''temp-build'' @ [CHR 0x5C] @ ''dist"'')
    \<and> fst (run b os w) = Returned
    \<and> files (snd (run b os w)) (tempDir b) = None
    \<and> (\<not> prefix (tempDir b) (launcherPath b) \<and> (\<forall>d f. snd (snd (os (testCommand b) d f)) = f) \<longrightarrow>
          content_of (files (snd (run b os w)) (launcherPath b))
            = Some (Text (launcher_script b ''index.js''))
        \<and> files (snd (run b os w)) (path_join (tempDir b) ''dist'') = None)\<close>
proof -
  note c = run_build_ncc(1) [OF assms(1)]
  have 2: \<open>includes_str (bash_launcher ''index.js'') ''cd "$(dirname "$0")/temp-build/dist"''\<close>
    by (simp add: bash_launcher_def)
  have 3: \<open>includes_str (batch_launcher ''index.js'')
         (''cd /d "%~dp0'' @ [CHR 0x5C] @ ''temp-build'' @ [CHR 0x5C] @ ''dist"'')\<close>
    by (simp add: batch_launcher_def)
  from assms(1) obtain w9 where rb: "run_build b os w = (Inr ''ncc'', w9)"
    by (cases "run_build b os w") simp
  from c rb have "pathExists (files w9) (launcherPath b)"
    by (cases "files w9 (launcherPath b)") (simp_all add: pathExists_def)
  with rb have 4: "fst (run b os w) = Returned" by (simp add: run_completion)
  have 5: "files (snd (run b os w)) (tempDir b) = None" by (rule run_gone [OF assms(2)])
  have 6: "\<not> prefix (tempDir b) (launcherPath b) \<and> (\<forall>d f. snd (snd (os (testCommand b) d f)) = f) \<longrightarrow>
          content_of (files (snd (run b os w)) (launcherPath b))
            = Some (Text (launcher_script b ''index.js''))
        \<and> files (snd (run b os w)) (path_join (tempDir b) ''dist'') = None"
  proof (intro impI, elim conjE)
    assume p: "\<not> prefix (tempDir b) (launcherPath b)"
      and ro: "\<forall>d f. snd (snd (os (testCommand b) d f)) = f"
    note f = run_files(1) [OF assms(1) assms(2) ro]
    show "content_of (files (snd (run b os w)) (launcherPath b))
            = Some (Text (launcher_script b ''index.js''))
        \<and> files (snd (run b os w)) (path_join (tempDir b) ''dist'') = None"
      using c p by (simp add: f remove_def path_join_dist)
  qed
  show ?thesis by (intro conjI c 2 3 4 5 6)
qed

lemma tools_ok_read_only: "\<forall>d f. snd (snd (tools_ok (testCommand builder0) d f)) = f"
  using ncc_ne [of builder0] by (simp add: tools_ok_def)

lemma run_build0: "fst (run_build builder0 tools_ok world0) = Inr ''ncc''"
  by code_simp

theorem launcher_points_into_removed_workspace_witness:
  "fst (run_build builder0 tools_ok world0) = Inr ''ncc''
   \<and> \<not> skipCleanup (options builder0)
   \<and> fst (run builder0 tools_ok world0) = Returned
   \<and> files (snd (run builder0 tools_ok world0)) (tempDir builder0) = None
   \<and> \<not> prefix (tempDir builder0) (launcherPath builder0)
   \<and> (\<forall>d f. snd (snd (tools_ok (testCommand builder0) d f)) = f)
   \<and> content_of (files (snd (run builder0 tools_ok world0)) (launcherPath builder0))
        = Some (Text (launcher_script builder0 ''index.js''))
   \<and> files (snd (run builder0 tools_ok world0)) (path_join (tempDir builder0) ''dist'') = None"
proof -
  have s: "\<not> skipCleanup (options builder0)" by (simp add: builder0_simps)
  have p: "\<not> prefix (tempDir builder0) (launcherPath builder0)" by (simp add: builder0_simps)
  note t = launcher_points_into_removed_workspace [OF run_build0 s]
  note t4 = conjunct2 [OF conjunct2 [OF conjunct2 [OF t]]]
  have l: "content_of (files (snd (run builder0 tools_ok world0)) (launcherPath builder0))
        = Some (Text (launcher_script builder0 ''index.js''))
     \<and> files (snd (run builder0 tools_ok world0)) (path_join (tempDir builder0) ''dist'') = None"
    by (rule mp [OF conjunct2 [OF conjunct2 [OF t4]]]) (intro conjI p tools_ok_read_only)
  show ?thesis
    by (intro conjI run_build0 s p tools_ok_read_only conjunct1 [OF t4]
        conjunct1 [OF conjunct2 [OF t4]] conjunct1 [OF l] conjunct2 [OF l])
qed

section \<open>What the cascade leaves\<close>

text \<open>
  A method that returns has run its tool to exit code 0 and has put what it built at
  the output path.
\<close>

lemma awaitA_executeCommand_Inr:
  assumes "awaitA (executeCommand b os c cwd) w = (Inr r, w1)"
  shows "\<exists>out err. fst (os c (case cwd of Some d \<Rightarrow> d | None \<Rightarrow> tempDir b) (files w)) = Closed 0 out err"
    and "files w1 = snd (snd (os c (case cwd of Some d \<Rightarrow> d | None \<Rightarrow> tempDir b) (files w)))"
  using assms
  by (auto simp: awaitA_def executeCommand_def log_def Let_def split: prod.splits outcome.splits if_splits)

lemma move_lands: "move src dst fs = Inr fs1 \<Longrightarrow> fs1 dst = fs src"
  by (auto simp: move_def split: if_splits sum.splits)

lemma method1_ran_bundler:
  assumes "method1 b os w = (Inr x, w9)"
  shows "\<exists>out err. fst (os nccCommand (tempDir b) (files w)) = Closed 0 out err"
proof -
  from assms obtain w1 w2 u1 r where
    l: "log ''Attempting ncc bundling approach...'' LInfo w = (Inr u1, w1)"
    and e: "awaitA (executeCommand b os nccCommand None) w1 = (Inr r, w2)"
    unfolding method1_def Let_def by (elim bindA_InrE)
  from awaitA_executeCommand_Inr(1) [OF e] log_files [OF l] show ?thesis by simp
qed

lemma method2_success:
  assumes "method2 b os w = (Inr x, w9)"
  shows "\<exists>out err. fst (os (pkgCommand b) (tempDir b) (files w)) = Closed 0 out err"
    and "snd (snd (os (pkgCommand b) (tempDir b) (files w))) (path_join (tempDir b) (outputName (options b))) \<noteq> None
         \<Longrightarrow> files w9 (launcherPath b)
             = snd (snd (os (pkgCommand b) (tempDir b) (files w))) (path_join (tempDir b) (outputName (options b)))"
proof -
  from assms obtain w1 w2 w3 w4 u1 r u3 u4 where
    l: "log ''Attempting pkg approach...'' LInfo w = (Inr u1, w1)"
    and e: "awaitA (executeCommand b os (pkgCommand b) None) w1 = (Inr r, w2)"
    and m: "(if pathExists (files w2) (path_join (tempDir b) (outputName (options b)))
             then fs_do (move (path_join (tempDir b) (outputName (options b)))
                              (path_join (workDir b) (outputName (options b)))) w2
             else (Inr (), w2)) = (Inr u3, w3)"
    and g: "log (check_mark @ '' Executable built successfully with pkg'') LSuccess w3 = (Inr u4, w4)"
    and r: "returnA ''pkg'' w4 = (Inr x, w9)"
    unfolding method2_def Let_def by (elim bindA_InrE)
  note f1 = log_files [OF l]
  from awaitA_executeCommand_Inr(1) [OF e] f1
  show "\<exists>out err. fst (os (pkgCommand b) (tempDir b) (files w)) = Closed 0 out err" by simp
  from awaitA_executeCommand_Inr(2) [OF e] f1
  have f2: "files w2 = snd (snd (os (pkgCommand b) (tempDir b) (files w)))" by simp
  from r have w9: "w9 = w4" by (simp add: returnA_def)
  note f4 = log_files [OF g]
  assume "snd (snd (os (pkgCommand b) (tempDir b) (files w))) (path_join (tempDir b) (outputName (options b))) \<noteq> None"
  with f2 have ex: "pathExists (files w2) (path_join (tempDir b) (outputName (options b)))"
    by (simp add: pathExists_def)
  with m have "fs_do (move (path_join (tempDir b) (outputName (options b)))
                              (path_join (workDir b) (outputName (options b)))) w2 = (Inr u3, w3)" by simp
  from move_lands [OF fs_do_InrD [OF this]] f2 f4 w9
  show "files w9 (launcherPath b)
             = snd (snd (os (pkgCommand b) (tempDir b) (files w))) (path_join (tempDir b) (outputName (options b)))"
    by (simp add: launcherPath_def)
qed

lemma method3_success:
  assumes "method3 b w = (Inr x, w9)"
  shows "content_of (files w9 (launcherPath b)) = Some (Text (launcher_script b ''src/index.js''))"
proof -
  from assms obtain w6 w7 w8 u7 u8 where
    l: "writeLauncher b ''src/index.js'' w6 = (Inr u7, w7)"
    and g: "log (check_mark @ '' Basic Node.js package created'') LSuccess w7 = (Inr u8, w8)"
    and r: "returnA ''basic'' w8 = (Inr x, w9)"
    unfolding method3_def Let_def by (elim bindA_InrE)
  from r have "w9 = w8" by (simp add: returnA_def)
  with writeLauncher_effect(1) [OF l] log_files [OF g] show ?thesis by simp
qed

lemma started_attempts: "attempts (stdout (started b w)) = attempts (stdout w)"
  unfolding started_def by (rule quiet_logD) simp

lemma started_files: "files (started b w) = files w"
  by (simp add: started_def log_def)

lemma after_ncc_failed_attempts: "attempts (stdout (after_ncc_failed e w)) = attempts (stdout w)"
  unfolding after_ncc_failed_def by (rule quiet_logD) simp

lemma after_ncc_failed_files: "files (after_ncc_failed e w) = files w"
  by (simp add: after_ncc_failed_def log_def)

lemma after_pkg_failed_attempts: "attempts (stdout (after_pkg_failed e w)) = attempts (stdout w)"
  unfolding after_pkg_failed_def by (rule quiet_logD) simp

text \<open>
  C1. That the cascade ends with an artifact or with a fatal error fails. With a bundler
  that exits with code 1 and a packer that exits with code 0 without leaving the binary
  in the scratch directory, \<open>buildExecutable\<close> returns \<^verbatim>\<open>pkg\<close>: there is nothing at the
  output path, no error, and the basic strategy was never attempted. (\<open>run\<close> then exits
  with code 1, from the verification step, still with bundle and pack attempted only.)
\<close>

theorem cascade_without_artifact_counterexample:
  "fst (buildExecutable builder0 pkg_leaves_nothing staged0) = Inr ''pkg''
   \<and> files (snd (buildExecutable builder0 pkg_leaves_nothing staged0)) (launcherPath builder0) = None
   \<and> attempts (stdout (snd (buildExecutable builder0 pkg_leaves_nothing staged0))) = [Bundle, Pack]
   \<and> fst (run builder0 pkg_leaves_nothing world0) = Exited 1
   \<and> attempts (stdout (snd (run builder0 pkg_leaves_nothing world0))) = [Bundle, Pack]"
  by code_simp

text \<open>
  C1, as amended. \<open>buildExecutable\<close> runs the bundle strategy first. If that returns,
  \<open>buildExecutable\<close> returns \<^verbatim>\<open>ncc\<close> in the state the strategy left, with bundle attempted
  only: the bundler exited with code 0 and the launcher for \<^verbatim>\<open>index.js\<close> is at the
  output path. If it throws, the pack strategy runs
  next, and if that returns, \<open>buildExecutable\<close> returns \<^verbatim>\<open>pkg\<close> in the state it left, with
  bundle and pack attempted: the packer exited with code 0, and the binary it left in
  the scratch directory, when it left one, is at the output path. If both throw, the
  basic strategy runs and \<open>buildExecutable\<close> ends as it does, with all three attempted
  in order: it returns \<^verbatim>\<open>basic\<close> with the launcher for \<^verbatim>\<open>src/index.js\<close> at the output path,
  or throws. In every case what is returned goes with what was attempted, so an error
  comes only after all three strategies.
\<close>

theorem cascade_outcomes:
  "(method1 b os (started b w) = (Inr x, w1) \<longrightarrow>
       x = ''ncc''
     \<and> buildExecutable b os w = (Inr ''ncc'', w1)
     \<and> attempts (stdout w1) = attempts (stdout w) @ [Bundle]
     \<and> (\<exists>out err. fst (os nccCommand (tempDir b) (files w)) = Closed 0 out err)
     \<and> content_of (files w1 (launcherPath b)) = Some (Text (launcher_script b ''index.js'')))
   \<and> (method1 b os (started b w) = (Inl e1, w1)
      \<and> method2 b os (after_ncc_failed e1 w1) = (Inr x, w3) \<longrightarrow>
       x = ''pkg''
     \<and> buildExecutable b os w = (Inr ''pkg'', w3)
     \<and> attempts (stdout w3) = attempts (stdout w) @ [Bundle, Pack]
     \<and> (\<exists>out err. fst (os (pkgCommand b) (tempDir b) (files w1)) = Closed 0 out err)
     \<and> (snd (snd (os (pkgCommand b) (tempDir b) (files w1)))
           (path_join (tempDir b) (outputName (options b))) \<noteq> None \<longrightarrow>
         files w3 (launcherPath b)
           = snd (snd (os (pkgCommand b) (tempDir b) (files w1)))
               (path_join (tempDir b) (outputName (options b)))))
   \<and> (method1 b os (started b w) = (Inl e1, w1)
      \<and> method2 b os (after_ncc_failed e1 w1) = (Inl e2, w3) \<longrightarrow>
       buildExecutable b os w = method3 b (after_pkg_failed e2 w3)
     \<and> attempts (stdout (snd (buildExecutable b os w))) = attempts (stdout w) @ [Bundle, Pack, Basic]
     \<and> (fst (buildExecutable b os w) = Inr ''basic''
          \<and> content_of (files (snd (buildExecutable b os w)) (launcherPath b))
              = Some (Text (launcher_script b ''src/index.js''))
        \<or> (\<exists>e3. fst (buildExecutable b os w) = Inl e3)))
   \<and> ((fst (buildExecutable b os w) = Inr ''ncc''
        \<and> attempts (stdout (snd (buildExecutable b os w))) = attempts (stdout w) @ [Bundle])
      \<or> (fst (buildExecutable b os w) = Inr ''pkg''
        \<and> attempts (stdout (snd (buildExecutable b os w))) = attempts (stdout w) @ [Bundle, Pack])
      \<or> ((fst (buildExecutable b os w) = Inr ''basic'' \<or> (\<exists>e. fst (buildExecutable b os w) = Inl e))
        \<and> attempts (stdout (snd (buildExecutable b os w))) = attempts (stdout w) @ [Bundle, Pack, Basic]))"
proof -
  have c1: "method1 b os (started b w) = (Inr x, w1) \<longrightarrow>
       x = ''ncc''
     \<and> buildExecutable b os w = (Inr ''ncc'', w1)
     \<and> attempts (stdout w1) = attempts (stdout w) @ [Bundle]
     \<and> (\<exists>out err. fst (os nccCommand (tempDir b) (files w)) = Closed 0 out err)
     \<and> content_of (files w1 (launcherPath b)) = Some (Text (launcher_script b ''index.js''))"
  proof (intro impI conjI)
    assume m1: "method1 b os (started b w) = (Inr x, w1)"
    show x: "x = ''ncc''" by (rule yieldsD [OF method1_yields m1])
    from m1 show "buildExecutable b os w = (Inr ''ncc'', w1)"
      using build_step1 [of b os w x w1] by (simp add: started_def x)
    from method1_attempts [of b os "started b w"] m1
    show "attempts (stdout w1) = attempts (stdout w) @ [Bundle]"
      by (simp add: started_attempts)
    from method1_ran_bundler [OF m1]
    show "\<exists>out err. fst (os nccCommand (tempDir b) (files w)) = Closed 0 out err"
      by (simp add: started_files)
    show "content_of (files w1 (launcherPath b)) = Some (Text (launcher_script b ''index.js''))"
      by (rule method1_success(1) [OF m1])
  qed
  have c2: "method1 b os (started b w) = (Inl e1, w1)
      \<and> method2 b os (after_ncc_failed e1 w1) = (Inr x, w3) \<longrightarrow>
       x = ''pkg''
     \<and> buildExecutable b os w = (Inr ''pkg'', w3)
     \<and> attempts (stdout w3) = attempts (stdout w) @ [Bundle, Pack]
     \<and> (\<exists>out err. fst (os (pkgCommand b) (tempDir b) (files w1)) = Closed 0 out err)
     \<and> (snd (snd (os (pkgCommand b) (tempDir b) (files w1)))
           (path_join (tempDir b) (outputName (options b))) \<noteq> None \<longrightarrow>
         files w3 (launcherPath b)
           = snd (snd (os (pkgCommand b) (tempDir b) (files w1)))
               (path_join (tempDir b) (outputName (options b))))"
  proof (intro impI conjI)
    assume p: "method1 b os (started b w) = (Inl e1, w1) \<and> method2 b os (after_ncc_failed e1 w1) = (Inr x, w3)"
    from p have m1: "method1 b os (started b w) = (Inl e1, w1)" by simp
    from p have m2: "method2 b os (after_ncc_failed e1 w1) = (Inr x, w3)" by simp
    show x: "x = ''pkg''" by (rule yieldsD [OF method2_yields m2])
    from m1 m2 show "buildExecutable b os w = (Inr ''pkg'', w3)"
      using build_step2 [of b os w e1 w1 x w3] by (simp add: started_def after_ncc_failed_def x)
    have "attempts (stdout w1) = attempts (stdout w) @ [Bundle]"
      using method1_attempts [of b os "started b w"] m1 by (simp add: started_attempts)
    with method2_attempts [of b os "after_ncc_failed e1 w1"] m2
    show "attempts (stdout w3) = attempts (stdout w) @ [Bundle, Pack]"
      by (simp add: after_ncc_failed_attempts)
    from method2_success(1) [OF m2]
    show "\<exists>out err. fst (os (pkgCommand b) (tempDir b) (files w1)) = Closed 0 out err"
      by (simp add: after_ncc_failed_files)
    assume "snd (snd (os (pkgCommand b) (tempDir b) (files w1)))
           (path_join (tempDir b) (outputName (options b))) \<noteq> None"
    with method2_success(2) [OF m2]
    show "files w3 (launcherPath b)
           = snd (snd (os (pkgCommand b) (tempDir b) (files w1)))
               (path_join (tempDir b) (outputName (options b)))"
      by (simp add: after_ncc_failed_files)
  qed
  have c3: "method1 b os (started b w) = (Inl e1, w1)
      \<and> method2 b os (after_ncc_failed e1 w1) = (Inl e2, w3) \<longrightarrow>
       buildExecutable b os w = method3 b (after_pkg_failed e2 w3)
     \<and> attempts (stdout (snd (buildExecutable b os w))) = attempts (stdout w) @ [Bundle, Pack, Basic]
     \<and> (fst (buildExecutable b os w) = Inr ''basic''
          \<and> content_of (files (snd (buildExecutable b os w)) (launcherPath b))
              = Some (Text (launcher_script b ''src/index.js''))
        \<or> (\<exists>e3. fst (buildExecutable b os w) = Inl e3))"
  proof (intro impI)
    assume p: "method1 b os (started b w) = (Inl e1, w1) \<and> method2 b os (after_ncc_failed e1 w1) = (Inl e2, w3)"
    from p have m1: "method1 b os (started b w) = (Inl e1, w1)" by simp
    from p have m2: "method2 b os (after_ncc_failed e1 w1) = (Inl e2, w3)" by simp
    have eq: "buildExecutable b os w = method3 b (after_pkg_failed e2 w3)"
      using m1 m2 build_step3 [of b os w e1 w1 e2 w3]
      by (simp add: started_def after_ncc_failed_def after_pkg_failed_def)
    have a1: "attempts (stdout w1) = attempts (stdout w) @ [Bundle]"
      using method1_attempts [of b os "started b w"] m1 by (simp add: started_attempts)
    have a2: "attempts (stdout w3) = attempts (stdout w) @ [Bundle, Pack]"
      using method2_attempts [of b os "after_ncc_failed e1 w1"] m2 a1
      by (simp add: after_ncc_failed_attempts)
    have a3: "attempts (stdout (snd (buildExecutable b os w))) = attempts (stdout w) @ [Bundle, Pack, Basic]"
      using method3_attempts [of b "after_pkg_failed e2 w3"] a2
      by (simp add: eq after_pkg_failed_attempts)
    have r3: "fst (buildExecutable b os w) = Inr ''basic''
          \<and> content_of (files (snd (buildExecutable b os w)) (launcherPath b))
              = Some (Text (launcher_script b ''src/index.js''))
        \<or> (\<exists>e3. fst (buildExecutable b os w) = Inl e3)"
    proof (cases "method3 b (after_pkg_failed e2 w3)")
      case (Pair r w5)
      show ?thesis
      proof (cases r)
        case (Inr y)
        with Pair have y: "y = ''basic''" using yieldsD [OF method3_yields] by blast
        from Pair Inr have "content_of (files w5 (launcherPath b)) = Some (Text (launcher_script b ''src/index.js''))"
          using method3_success by blast
        with Pair Inr y show ?thesis by (simp add: eq)
      next
        case (Inl e)
        with Pair show ?thesis by (simp add: eq)
      qed
    qed
    show "buildExecutable b os w = method3 b (after_pkg_failed e2 w3)
     \<and> attempts (stdout (snd (buildExecutable b os w))) = attempts (stdout w) @ [Bundle, Pack, Basic]
     \<and> (fst (buildExecutable b os w) = Inr ''basic''
          \<and> content_of (files (snd (buildExecutable b os w)) (launcherPath b))
              = Some (Text (launcher_script b ''src/index.js''))
        \<or> (\<exists>e3. fst (buildExecutable b os w) = Inl e3))"
      by (rule conjI [OF eq conjI [OF a3 r3]])
  qed
  show ?thesis by (rule conjI [OF c1 conjI [OF c2 conjI [OF c3 cascade_trace]]])
qed

text \<open>The three ways through the cascade, on the staged checkout.\<close>

lemma pair_of_fst: "fst p = a \<Longrightarrow> p = (a, snd p)"
  by (cases p) simp

lemma bundle_ok0: "fst (method1 builder0 tools_ok (started builder0 staged0)) = Inr ''ncc''"
  by code_simp

lemma bundle_fails0:
  "fst (method1 builder0 pkg_builds (started builder0 staged0))
     = Inl (Error ''Command failed with code 1: ncc: build failed'')"
  by code_simp

lemma pack_ok0:
  "fst (method2 builder0 pkg_builds
          (after_ncc_failed (Error ''Command failed with code 1: ncc: build failed'')
             (snd (method1 builder0 pkg_builds (started builder0 staged0)))))
     = Inr ''pkg''"
  by code_simp

lemma pack_left_binary0:
  "snd (snd (pkg_builds (pkgCommand builder0) (tempDir builder0) f))
     (path_join (tempDir builder0) (outputName (options builder0)))
   = Some (File (Text ''ELF'') True)"
  by (simp add: pkg_builds_def builder0_simps path_join_def pkgCommand_def nccCommand_def)

lemma bundle_fails1:
  "fst (method1 builder0 tools_fail (started builder0 staged0))
     = Inl (Error ''Command failed with code 1: failed'')"
  by code_simp

lemma pack_fails1:
  "fst (method2 builder0 tools_fail
          (after_ncc_failed (Error ''Command failed with code 1: failed'')
             (snd (method1 builder0 tools_fail (started builder0 staged0)))))
     = Inl (Error ''Command failed with code 1: failed'')"
  by code_simp

theorem cascade_outcomes_witness:
  "fst (method1 builder0 tools_ok (started builder0 staged0)) = Inr ''ncc''
   \<and> fst (buildExecutable builder0 tools_ok staged0) = Inr ''ncc''
   \<and> attempts (stdout (snd (buildExecutable builder0 tools_ok staged0))) = [Bundle]
   \<and> content_of (files (snd (buildExecutable builder0 tools_ok staged0)) (launcherPath builder0))
        = Some (Text (launcher_script builder0 ''index.js''))
   \<and> fst (method1 builder0 pkg_builds (started builder0 staged0))
        = Inl (Error ''Command failed with code 1: ncc: build failed'')
   \<and> fst (method2 builder0 pkg_builds
          (after_ncc_failed (Error ''Command failed with code 1: ncc: build failed'')
             (snd (method1 builder0 pkg_builds (started builder0 staged0)))))
        = Inr ''pkg''
   \<and> fst (buildExecutable builder0 pkg_builds staged0) = Inr ''pkg''
   \<and> attempts (stdout (snd (buildExecutable builder0 pkg_builds staged0))) = [Bundle, Pack]
   \<and> files (snd (buildExecutable builder0 pkg_builds staged0)) (launcherPath builder0)
        = Some (File (Text ''ELF'') True)
   \<and> fst (method1 builder0 tools_fail (started builder0 staged0))
        = Inl (Error ''Command failed with code 1: failed'')
   \<and> fst (method2 builder0 tools_fail
          (after_ncc_failed (Error ''Command failed with code 1: failed'')
             (snd (method1 builder0 tools_fail (started builder0 staged0)))))
        = Inl (Error ''Command failed with code 1: failed'')
   \<and> attempts (stdout (snd (buildExecutable builder0 tools_fail staged0))) = [Bundle, Pack, Basic]"
proof -
  have s0: "attempts (stdout staged0) = []" by (simp add: staged0_def attempts_def map_filter_simps)
  \<comment> \<open>the bundle strategy succeeds\<close>
  note m1 = pair_of_fst [OF bundle_ok0]
  note t1 = mp [OF conjunct1 [OF cascade_outcomes [where b = builder0 and os = tools_ok
      and w = staged0 and x = "''ncc''"
      and ?w1.0 = "snd (method1 builder0 tools_ok (started builder0 staged0))"]] m1]
  note b1 = conjunct1 [OF conjunct2 [OF t1]]
  have r1: "fst (buildExecutable builder0 tools_ok staged0) = Inr ''ncc''" by (simp add: b1)
  have a1: "attempts (stdout (snd (buildExecutable builder0 tools_ok staged0))) = [Bundle]"
    using conjunct1 [OF conjunct2 [OF conjunct2 [OF t1]]] by (simp add: b1 s0)
  have l1: "content_of (files (snd (buildExecutable builder0 tools_ok staged0)) (launcherPath builder0))
        = Some (Text (launcher_script builder0 ''index.js''))"
    using conjunct2 [OF conjunct2 [OF conjunct2 [OF conjunct2 [OF t1]]]] by (simp add: b1)
  \<comment> \<open>the bundle strategy fails and the pack strategy succeeds\<close>
  note m2 = pair_of_fst [OF bundle_fails0]
  note p2 = pair_of_fst [OF pack_ok0]
  note t2 = mp [OF conjunct1 [OF conjunct2 [OF cascade_outcomes [where b = builder0 and os = pkg_builds
      and w = staged0 and x = "''pkg''"
      and ?e1.0 = "Error ''Command failed with code 1: ncc: build failed''"
      and ?w1.0 = "snd (method1 builder0 pkg_builds (started builder0 staged0))"
      and ?w3.0 = "snd (method2 builder0 pkg_builds
          (after_ncc_failed (Error ''Command failed with code 1: ncc: build failed'')
             (snd (method1 builder0 pkg_builds (started builder0 staged0)))))"]]]
      conjI [OF m2 p2]]
  note b2 = conjunct1 [OF conjunct2 [OF t2]]
  have r2: "fst (buildExecutable builder0 pkg_builds staged0) = Inr ''pkg''" by (simp add: b2)
  have a2: "attempts (stdout (snd (buildExecutable builder0 pkg_builds staged0))) = [Bundle, Pack]"
    using conjunct1 [OF conjunct2 [OF conjunct2 [OF t2]]] by (simp add: b2 s0)
  have l2: "files (snd (buildExecutable builder0 pkg_builds staged0)) (launcherPath builder0)
        = Some (File (Text ''ELF'') True)"
    using conjunct2 [OF conjunct2 [OF conjunct2 [OF conjunct2 [OF t2]]]]
    by (simp add: b2 pack_left_binary0)
  \<comment> \<open>both fail\<close>
  note m3 = pair_of_fst [OF bundle_fails1]
  note p3 = pair_of_fst [OF pack_fails1]
  note t3 = mp [OF conjunct1 [OF conjunct2 [OF conjunct2 [OF cascade_outcomes [where b = builder0
      and os = tools_fail and w = staged0
      and ?e1.0 = "Error ''Command failed with code 1: failed''"
      and ?e2.0 = "Error ''Command failed with code 1: failed''"
      and ?w1.0 = "snd (method1 builder0 tools_fail (started builder0 staged0))"
      and ?w3.0 = "snd (method2 builder0 tools_fail
          (after_ncc_failed (Error ''Command failed with code 1: failed'')
             (snd (method1 builder0 tools_fail (started builder0 staged0)))))"]]]]
      conjI [OF m3 p3]]
  have a3: "attempts (stdout (snd (buildExecutable builder0 tools_fail staged0))) = [Bundle, Pack, Basic]"
    using conjunct1 [OF conjunct2 [OF t3]] by (simp add: s0)
  show ?thesis
    by (intro conjI bundle_ok0 r1 a1 l1 bundle_fails0 pack_ok0 r2 a2 l2 bundle_fails1 pack_fails1 a3)
qed

end
